theory Spec2Isabelle
  imports Main
begin

section \<open>JavaScript values\<close>

text \<open>
  The matcher engine is dynamically typed, so the embedding starts from a datatype of the
  JavaScript values it inspects. Numbers are the integers and NaN (fractions and infinities
  are left out). Objects are trees: own enumerable data properties in insertion order,
  then the own properties of each object on the prototype chain, then where the chain
  ends: at null, at Object.prototype, or at the engine's \<open>matcher\<close> object (whose own
  prototype is Object.prototype). Accessors, symbol-keyed and non-enumerable user
  properties, sparse arrays and cyclic object graphs are outside the model; so are own
  properties of functions, regular expressions, dates, maps, sets and arrays beyond the
  elements and \<open>length\<close>.

  A function value is a closure: one constructor per function expression of the source
  that can end up in a value, holding the variables it captures. \<open>CUser\<close> is a function
  supplied by the caller, known by a number only; \<open>CNative\<close> a built-in method. The
  \<open>Test_\<close> closures are the \<open>test\<close> functions the engine installs; \<open>Matcher_or\<close>,
  \<open>Array_deepEquals\<close> and the like are the methods of \<open>matcher\<close> and of the family
  roots; the \<open>Fn_\<close> closures are the factory and the functions of its namespace
  (\<open>createMatcher\<close>, \<open>createMatcher.typeOf\<close>, ...), which a caller can pass as values
  like any other function.
\<close>

datatype jsnum = NaN | Fin int

datatype chain_end = EndNull | EndObject | EndMatcher

datatype jsval =
    VUndefined
  | VNull
  | VBool bool
  | VNum jsnum
  | VStr string
  | VSymbol nat
  | VFunc closure
  | VRegexp nat
  | VDate int
  | VArr "jsval list"
  | VMap "(jsval \<times> jsval) list"
  | VSet "jsval list"
  | VObj "(string \<times> jsval) list" "(string \<times> jsval) list list" chain_end
and closure =
    CUser nat
  | CNative string
  | Matcher_toString
  | Matcher_or
  | Matcher_and
  | Test_number jsval
  | Test_adapter jsval
  | Test_object jsval
  | Test_regexp jsval
  | Test_string jsval
  | Test_deepEqual jsval
  | Test_or jsval jsval
  | Test_and jsval jsval
  | Test_any
  | Test_defined
  | Test_truthy
  | Test_falsy
  | Test_same jsval
  | Test_in jsval
  | Test_typeOf jsval
  | Test_instanceOf jsval
  | Test_property closure jsval bool jsval
  | PropertyTest_has
  | PropertyTest_hasOwn
  | Test_hasNested jsval bool jsval
  | Test_every jsval
  | Test_some jsval
  | Test_array_deepEquals jsval
  | Test_array_startsWith jsval
  | Test_array_endsWith jsval
  | Test_array_contains jsval
  | Test_map_deepEquals jsval
  | Test_map_contains jsval
  | Test_set_deepEquals jsval
  | Test_set_contains jsval
  | Array_deepEquals
  | Array_startsWith
  | Array_endsWith
  | Array_contains
  | Map_deepEquals
  | Map_contains
  | Set_deepEquals
  | Set_contains
  | Fn_createMatcher
  | Fn_isMatcher
  | Fn_same
  | Fn_in
  | Fn_typeOf
  | Fn_instanceOf
  | Fn_has
  | Fn_hasOwn
  | Fn_hasNested
  | Fn_every
  | Fn_some

text \<open>
  Every \<open>throw\<close> of the source and every exception of the runtime is a value.
  \<open>TypeError\<close> carries the message of a \<open>throw new TypeError(...)\<close> of the source;
  \<open>NativeTypeError\<close> is the TypeError the runtime raises itself (a property read on
  null or undefined, a call of something that is not a function); \<open>Thrown\<close> is whatever
  caller-supplied code throws.
\<close>

datatype error = TypeError string | NativeTypeError | Thrown nat

type_synonym 'a result = "error + 'a"

definition bind_result :: "'a result \<Rightarrow> ('a \<Rightarrow> 'b result) \<Rightarrow> 'b result" where
  "bind_result r f = (case r of Inl e \<Rightarrow> Inl e | Inr v \<Rightarrow> f v)"

text \<open>
  The collaborators the source requires but does not define (\<open>./deep-equal\<close>,
  \<open>./iterable-to-string\<close>, \<open>valueToString\<close> and \<open>functionName\<close> of @sinonjs/commons,
  lodash's \<open>get\<close>), the caller's functions and the parts of the runtime that run
  caller code are parameters of the model, collected in one record. Every definition
  below is stated for an arbitrary host.
\<close>

record host =
  deepEqual :: "jsval \<Rightarrow> jsval \<Rightarrow> bool"
  valueToString :: "jsval \<Rightarrow> string"
  functionName :: "jsval \<Rightarrow> string"
  iterableToString :: "jsval \<Rightarrow> string result"
  lodash_get :: "jsval \<Rightarrow> jsval \<Rightarrow> jsval"
  call_user :: "nat \<Rightarrow> jsval \<Rightarrow> jsval list \<Rightarrow> jsval result"
  call_native :: "string \<Rightarrow> jsval \<Rightarrow> jsval list \<Rightarrow> jsval result"
  regexp_exec :: "nat \<Rightarrow> string \<Rightarrow> bool"
  instance_of :: "jsval \<Rightarrow> jsval \<Rightarrow> bool result"
  has_Symbol_hasInstance :: bool
  symbol_hasInstance :: "jsval \<Rightarrow> jsval"
  to_primitive :: "jsval \<Rightarrow> jsval result"
  string_to_number :: "string \<Rightarrow> jsnum"
  to_string :: "jsval \<Rightarrow> string"
  js_plus :: "jsval \<Rightarrow> jsval \<Rightarrow> jsval result"
  same_object :: "jsval \<Rightarrow> jsval \<Rightarrow> bool"
  user_forEach :: "nat \<Rightarrow> jsval \<Rightarrow> (jsval \<times> jsval) list option"

section \<open>Operators of the language\<close>

text \<open>\<open>typeOf\<close> of @sinonjs/commons: the lower-cased class of a value.\<close>

fun typeOf :: "jsval \<Rightarrow> string" where
  "typeOf VUndefined = ''undefined''"
| "typeOf VNull = ''null''"
| "typeOf (VBool _) = ''boolean''"
| "typeOf (VNum _) = ''number''"
| "typeOf (VStr _) = ''string''"
| "typeOf (VSymbol _) = ''symbol''"
| "typeOf (VFunc _) = ''function''"
| "typeOf (VRegexp _) = ''regexp''"
| "typeOf (VDate _) = ''date''"
| "typeOf (VArr _) = ''array''"
| "typeOf (VMap _) = ''map''"
| "typeOf (VSet _) = ''set''"
| "typeOf (VObj _ _ _) = ''object''"

text \<open>The \<open>typeof\<close> operator.\<close>

fun js_typeof :: "jsval \<Rightarrow> string" where
  "js_typeof VUndefined = ''undefined''"
| "js_typeof (VBool _) = ''boolean''"
| "js_typeof (VNum _) = ''number''"
| "js_typeof (VStr _) = ''string''"
| "js_typeof (VSymbol _) = ''symbol''"
| "js_typeof (VFunc _) = ''function''"
| "js_typeof _ = ''object''"

fun is_object :: "jsval \<Rightarrow> bool" where
  "is_object (VFunc _) = True"
| "is_object (VRegexp _) = True"
| "is_object (VDate _) = True"
| "is_object (VArr _) = True"
| "is_object (VMap _) = True"
| "is_object (VSet _) = True"
| "is_object (VObj _ _ _) = True"
| "is_object _ = False"

text \<open>\<open>Boolean(v)\<close>, and with it \<open>!v\<close>, \<open>a || b\<close> and \<open>a && b\<close>.\<close>

fun truthy :: "jsval \<Rightarrow> bool" where
  "truthy VUndefined = False"
| "truthy VNull = False"
| "truthy (VBool b) = b"
| "truthy (VNum NaN) = False"
| "truthy (VNum (Fin i)) = (i \<noteq> 0)"
| "truthy (VStr s) = (s \<noteq> [])"
| "truthy _ = True"

fun num_eq :: "jsnum \<Rightarrow> jsnum \<Rightarrow> bool" where
  "num_eq (Fin a) (Fin b) = (a = b)"
| "num_eq _ _ = False"

text \<open>
  \<open>a === b\<close>. Values are trees, not references: whether two object values are one and
  the same object is the host's answer.
\<close>

definition strict_eq :: "host \<Rightarrow> jsval \<Rightarrow> jsval \<Rightarrow> bool" where
  "strict_eq h a b =
     (case a of
        VUndefined \<Rightarrow> b = VUndefined
      | VNull \<Rightarrow> b = VNull
      | VBool x \<Rightarrow> b = VBool x
      | VNum x \<Rightarrow> (case b of VNum y \<Rightarrow> num_eq x y | _ \<Rightarrow> False)
      | VStr s \<Rightarrow> b = VStr s
      | VSymbol i \<Rightarrow> b = VSymbol i
      | _ \<Rightarrow> is_object b \<and> same_object h a b)"

text \<open>SameValueZero, the key comparison of Map and Set: as \<open>===\<close>, but NaN equals NaN.\<close>

definition same_value_zero :: "host \<Rightarrow> jsval \<Rightarrow> jsval \<Rightarrow> bool" where
  "same_value_zero h a b = ((a = VNum NaN \<and> b = VNum NaN) \<or> strict_eq h a b)"

text \<open>
  \<open>a == b\<close>. Booleans count as numbers, a string meets a number as a number, null and
  undefined equal each other only, and an object meets a primitive through ToPrimitive,
  which may run caller code.
\<close>

fun unbool :: "jsval \<Rightarrow> jsval" where
  "unbool (VBool b) = VNum (Fin (if b then 1 else 0))"
| "unbool v = v"

definition prim_loose_eq :: "host \<Rightarrow> jsval \<Rightarrow> jsval \<Rightarrow> bool" where
  "prim_loose_eq h a b =
     (case unbool a of
        VUndefined \<Rightarrow> b = VUndefined \<or> b = VNull
      | VNull \<Rightarrow> b = VUndefined \<or> b = VNull
      | VNum x \<Rightarrow>
          (case unbool b of
             VNum y \<Rightarrow> num_eq x y
           | VStr t \<Rightarrow> num_eq x (string_to_number h t)
           | _ \<Rightarrow> False)
      | VStr s \<Rightarrow>
          (case unbool b of
             VNum y \<Rightarrow> num_eq (string_to_number h s) y
           | VStr t \<Rightarrow> s = t
           | _ \<Rightarrow> False)
      | VSymbol i \<Rightarrow> b = VSymbol i
      | _ \<Rightarrow> False)"

definition loose_eq :: "host \<Rightarrow> jsval \<Rightarrow> jsval \<Rightarrow> bool result" where
  "loose_eq h a b =
     (if is_object a \<and> is_object b then Inr (same_object h a b)
      else if is_object a then
        (if b = VUndefined \<or> b = VNull then Inr False
         else bind_result (to_primitive h a) (\<lambda>p. Inr (prim_loose_eq h p b)))
      else if is_object b then
        (if a = VUndefined \<or> a = VNull then Inr False
         else bind_result (to_primitive h b) (\<lambda>p. Inr (prim_loose_eq h a p)))
      else Inr (prim_loose_eq h a b))"

section \<open>Strings and property keys\<close>

definition digits :: string where
  "digits = ''0123456789''"

fun show_nat :: "nat \<Rightarrow> string" where
  "show_nat n = (if n < 10 then [digits ! n] else show_nat (n div 10) @ [digits ! (n mod 10)])"

declare show_nat.simps [simp del]

fun num_to_key :: "jsnum \<Rightarrow> string" where
  "num_to_key NaN = ''NaN''"
| "num_to_key (Fin i) = (if i < 0 then CHR ''-'' # show_nat (nat (- i)) else show_nat (nat i))"

definition digit_value :: "char \<Rightarrow> nat" where
  "digit_value c = (of_char c :: nat) - 48"

text \<open>The array index a property key denotes, if it is a canonical decimal numeral.\<close>

definition index_of_key :: "string \<Rightarrow> nat option" where
  "index_of_key s =
     (if s = [] \<or> \<not> list_all (\<lambda>c. c \<in> set digits) s \<or> (hd s = CHR ''0'' \<and> length s > 1)
      then None
      else Some (foldl (\<lambda>n c. 10 * n + digit_value c) 0 s))"

text \<open>The characters of a string value; applied where the source has checked for a string.\<close>

fun str_val :: "jsval \<Rightarrow> string" where
  "str_val (VStr s) = s"
| "str_val _ = []"

text \<open>ToString, for concatenation and for property keys; objects and symbols go to the host.\<close>

fun js_to_string :: "host \<Rightarrow> jsval \<Rightarrow> string" where
  "js_to_string h (VStr s) = s"
| "js_to_string h (VNum n) = num_to_key n"
| "js_to_string h VUndefined = ''undefined''"
| "js_to_string h VNull = ''null''"
| "js_to_string h (VBool b) = (if b then ''true'' else ''false'')"
| "js_to_string h v = to_string h v"

text \<open>\<open>stringIndexOf(actual, expectation) !== -1\<close>: the expectation occurs in the string.\<close>

definition stringIndexOf_found :: "string \<Rightarrow> string \<Rightarrow> bool" where
  "stringIndexOf_found actual expectation =
     list_ex (\<lambda>n. take (length expectation) (drop n actual) = expectation) [0..<Suc (length actual)]"

text \<open>\<open>join(array, sep)\<close>.\<close>

fun join :: "string list \<Rightarrow> string \<Rightarrow> string" where
  "join [] sep = []"
| "join [x] sep = x"
| "join (x # y # ys) sep = x @ sep @ join (y # ys) sep"

section \<open>Properties\<close>

text \<open>
  The members of the built-in prototypes that the engine relies on (\<open>forEach\<close>, \<open>has\<close>,
  \<open>get\<close>, \<open>size\<close>, \<open>test\<close>), and seven of Object.prototype. Every other built-in member
  (\<open>Array.prototype.push\<close>, \<open>__proto__\<close>, ...) reads as absent in the model. The
  \<open>matcher\<close> object of the source holds \<open>toString\<close>, \<open>or\<close> and \<open>and\<close>.
\<close>

definition object_prototype_names :: "string list" where
  "object_prototype_names =
     [''constructor'', ''hasOwnProperty'', ''isPrototypeOf'', ''propertyIsEnumerable'',
      ''toLocaleString'', ''toString'', ''valueOf'']"

definition object_prototype :: "string \<Rightarrow> jsval option" where
  "object_prototype k =
     (if k \<in> set object_prototype_names
      then Some (VFunc (CNative (''Object.prototype.'' @ k))) else None)"

definition matcher_prototype :: "string \<Rightarrow> jsval option" where
  "matcher_prototype k =
     (if k = ''toString'' then Some (VFunc Matcher_toString)
      else if k = ''or'' then Some (VFunc Matcher_or)
      else if k = ''and'' then Some (VFunc Matcher_and)
      else object_prototype k)"

fun chain_end_lookup :: "chain_end \<Rightarrow> string \<Rightarrow> jsval option" where
  "chain_end_lookup EndNull k = None"
| "chain_end_lookup EndObject k = object_prototype k"
| "chain_end_lookup EndMatcher k = matcher_prototype k"

fun parents_lookup :: "(string \<times> jsval) list list \<Rightarrow> chain_end \<Rightarrow> string \<Rightarrow> jsval option" where
  "parents_lookup [] e k = chain_end_lookup e k"
| "parents_lookup (p # ps) e k =
     (case map_of p k of Some v \<Rightarrow> Some v | None \<Rightarrow> parents_lookup ps e k)"

definition builtin_method :: "string list \<Rightarrow> string \<Rightarrow> string \<Rightarrow> jsval option" where
  "builtin_method names cls k =
     (if k \<in> set names then Some (VFunc (CNative (cls @ ''.prototype.'' @ k)))
      else object_prototype k)"

text \<open>Own properties: \<open>hasOwnProperty(actual, property)\<close> asks whether there is one.\<close>

fun own_lookup :: "jsval \<Rightarrow> string \<Rightarrow> jsval option" where
  "own_lookup (VObj props parents e) k = map_of props k"
| "own_lookup (VArr xs) k =
     (if k = ''length'' then Some (VNum (Fin (int (length xs))))
      else case index_of_key k of
             Some i \<Rightarrow> if i < length xs then Some (xs ! i) else None
           | None \<Rightarrow> None)"
| "own_lookup (VStr s) k =
     (if k = ''length'' then Some (VNum (Fin (int (length s))))
      else case index_of_key k of
             Some i \<Rightarrow> if i < length s then Some (VStr [s ! i]) else None
           | None \<Rightarrow> None)"
| "own_lookup _ k = None"

fun inherited_lookup :: "jsval \<Rightarrow> string \<Rightarrow> jsval option" where
  "inherited_lookup (VObj props parents e) k = parents_lookup parents e k"
| "inherited_lookup (VArr xs) k = builtin_method [''forEach''] ''Array'' k"
| "inherited_lookup (VMap kvs) k =
     (if k = ''size'' then Some (VNum (Fin (int (length kvs))))
      else builtin_method [''forEach'', ''has'', ''get''] ''Map'' k)"
| "inherited_lookup (VSet xs) k =
     (if k = ''size'' then Some (VNum (Fin (int (length xs))))
      else builtin_method [''forEach'', ''has''] ''Set'' k)"
| "inherited_lookup (VRegexp n) k = builtin_method [''test''] ''RegExp'' k"
| "inherited_lookup VUndefined k = None"
| "inherited_lookup VNull k = None"
| "inherited_lookup _ k = object_prototype k"

definition lookup :: "jsval \<Rightarrow> string \<Rightarrow> jsval option" where
  "lookup v k = (case own_lookup v k of Some x \<Rightarrow> Some x | None \<Rightarrow> inherited_lookup v k)"

text \<open>\<open>v[k]\<close> for a value that is neither null nor undefined.\<close>

definition get_prop :: "jsval \<Rightarrow> string \<Rightarrow> jsval" where
  "get_prop v k = (case lookup v k of Some x \<Rightarrow> x | None \<Rightarrow> VUndefined)"

text \<open>\<open>k in v\<close> for an object.\<close>

definition has_property :: "jsval \<Rightarrow> string \<Rightarrow> bool" where
  "has_property v k = (lookup v k \<noteq> None)"

definition hasOwnProperty :: "jsval \<Rightarrow> string \<Rightarrow> bool" where
  "hasOwnProperty v k = (own_lookup v k \<noteq> None)"

text \<open>\<open>v.k\<close> where the source reads a property with no guard: null and undefined raise.\<close>

definition js_member :: "jsval \<Rightarrow> string \<Rightarrow> jsval result" where
  "js_member v k = (if v = VUndefined \<or> v = VNull then Inl NativeTypeError else Inr (get_prop v k))"

text \<open>
  \<open>v[key]\<close> with a computed key. A number indexes an array or a string directly; any
  other key is turned into a property name.
\<close>

definition get_at :: "host \<Rightarrow> jsval \<Rightarrow> jsval \<Rightarrow> jsval" where
  "get_at h v key =
     (case (v, key) of
        (VArr xs, VNum (Fin i)) \<Rightarrow> if 0 \<le> i \<and> nat i < length xs then xs ! nat i else VUndefined
      | (VArr xs, VNum NaN) \<Rightarrow> VUndefined
      | (VStr s, VNum (Fin i)) \<Rightarrow> if 0 \<le> i \<and> nat i < length s then VStr [s ! nat i] else VUndefined
      | (VStr s, VNum NaN) \<Rightarrow> VUndefined
      | _ \<Rightarrow> get_prop v (js_to_string h key))"

text \<open>\<open>Object.keys(v)\<close>; the source applies it to values that classify as \<open>object\<close> only.
  The model keeps the keys in insertion order, where the language lists integer-like keys
  first, in ascending order.\<close>

fun object_keys :: "jsval \<Rightarrow> string list" where
  "object_keys (VObj props parents e) = remdups (map fst props)"
| "object_keys _ = []"

text \<open>Assignment \<open>m.k = v\<close> on the own properties of an object under construction.\<close>

fun put :: "(string \<times> jsval) list \<Rightarrow> string \<Rightarrow> jsval \<Rightarrow> (string \<times> jsval) list" where
  "put [] k v = [(k, v)]"
| "put ((k', v') # ps) k v = (if k' = k then (k, v) # ps else (k', v') # put ps k v)"

text \<open>The i-th argument of a call; a missing argument reads as undefined.\<close>

definition arg :: "jsval list \<Rightarrow> nat \<Rightarrow> jsval" where
  "arg args i = (if i < length args then args ! i else VUndefined)"

text \<open>Numeric \<open>a - b\<close> and \<open>a + b\<close>; ToNumber of an object runs caller code.\<close>

fun num_sub :: "jsnum \<Rightarrow> jsnum \<Rightarrow> jsnum" where
  "num_sub (Fin a) (Fin b) = Fin (a - b)"
| "num_sub _ _ = NaN"

fun num_add :: "jsnum \<Rightarrow> jsnum \<Rightarrow> jsnum" where
  "num_add (Fin a) (Fin b) = Fin (a + b)"
| "num_add _ _ = NaN"

fun prim_to_number :: "host \<Rightarrow> jsval \<Rightarrow> jsnum result" where
  "prim_to_number h (VNum n) = Inr n"
| "prim_to_number h VUndefined = Inr NaN"
| "prim_to_number h VNull = Inr (Fin 0)"
| "prim_to_number h (VBool b) = Inr (Fin (if b then 1 else 0))"
| "prim_to_number h (VStr s) = Inr (string_to_number h s)"
| "prim_to_number h _ = Inl NativeTypeError"

definition to_number :: "host \<Rightarrow> jsval \<Rightarrow> jsnum result" where
  "to_number h v =
     (if is_object v then bind_result (to_primitive h v) (prim_to_number h)
      else prim_to_number h v)"

definition js_minus :: "host \<Rightarrow> jsval \<Rightarrow> jsval \<Rightarrow> jsval result" where
  "js_minus h a b =
     bind_result (to_number h a) (\<lambda>x. bind_result (to_number h b) (\<lambda>y. Inr (VNum (num_sub x y))))"

definition js_add :: "host \<Rightarrow> jsval \<Rightarrow> jsval \<Rightarrow> jsval result" where
  "js_add h a b =
     (case (a, b) of
        (VNum x, VNum y) \<Rightarrow> Inr (VNum (num_add x y))
      | _ \<Rightarrow> js_plus h a b)"

text \<open>\<open>objectToString(v)\<close>, that is \<open>Object.prototype.toString.call(v)\<close>.\<close>

fun class_name :: "jsval \<Rightarrow> string" where
  "class_name VUndefined = ''Undefined''"
| "class_name VNull = ''Null''"
| "class_name (VBool _) = ''Boolean''"
| "class_name (VNum _) = ''Number''"
| "class_name (VStr _) = ''String''"
| "class_name (VSymbol _) = ''Symbol''"
| "class_name (VFunc _) = ''Function''"
| "class_name (VRegexp _) = ''RegExp''"
| "class_name (VDate _) = ''Date''"
| "class_name (VArr _) = ''Array''"
| "class_name (VMap _) = ''Map''"
| "class_name (VSet _) = ''Set''"
| "class_name (VObj _ _ _) = ''Object''"

definition objectToString :: "jsval \<Rightarrow> string" where
  "objectToString v = ''[object '' @ class_name v @ '']''"

definition dquote :: string where
  "dquote = [CHR 0x22]"

section \<open>Iteration helpers\<close>

text \<open>
  What \<open>obj.forEach(callback)\<close> passes to the callback, call by call: the element and
  its index for an array, the value and its key for a Map, the element twice for a Set.
  An object's own \<open>forEach\<close> is the caller's; anything else has none.
\<close>

definition forEach_items :: "host \<Rightarrow> jsval \<Rightarrow> (jsval \<times> jsval) list option" where
  "forEach_items h obj =
     (case obj of
        VArr xs \<Rightarrow> Some (zip xs (map (\<lambda>i. VNum (Fin (int i))) [0..<length xs]))
      | VMap kvs \<Rightarrow> Some (map (\<lambda>(k, v). (v, k)) kvs)
      | VSet xs \<Rightarrow> Some (map (\<lambda>x. (x, x)) xs)
      | VObj props parents e \<Rightarrow>
          (case get_prop obj ''forEach'' of
             VFunc (CUser n) \<Rightarrow> user_forEach h n obj
           | _ \<Rightarrow> None)
      | _ \<Rightarrow> None)"

text \<open>
  \<open>every(obj, fn)\<close> of @sinonjs/commons, which is not part of the repository. It calls
  \<open>obj.forEach\<close> inside a \<open>try\<close> block, throws from the callback as soon as \<open>fn\<close>
  returns a falsy value, and answers \<open>false\<close> when anything was thrown in the block (by
  itself, by \<open>fn\<close>, or because \<open>obj\<close> has no \<open>forEach\<close>), \<open>true\<close> otherwise.
\<close>

definition every :: "host \<Rightarrow> jsval \<Rightarrow> (jsval \<Rightarrow> jsval \<Rightarrow> jsval result) \<Rightarrow> bool" where
  "every h obj fn =
     (case forEach_items h obj of
        None \<Rightarrow> False
      | Some items \<Rightarrow>
          list_all (\<lambda>(x, i). case fn x i of Inl e \<Rightarrow> False | Inr v \<Rightarrow> truthy v) items)"

text \<open>\<open>arrayEvery(array, fn)\<close>, the built-in \<open>Array.prototype.every\<close>: an exception of the
  callback propagates.\<close>

fun arrayEvery :: "'a list \<Rightarrow> ('a \<Rightarrow> bool result) \<Rightarrow> bool result" where
  "arrayEvery [] fn = Inr True"
| "arrayEvery (x # xs) fn =
     (case fn x of Inl e \<Rightarrow> Inl e | Inr b \<Rightarrow> if b then arrayEvery xs fn else Inr False)"

text \<open>\<open>some(array, fn)\<close>, the built-in \<open>Array.prototype.some\<close>, and
  \<open>arrayIndexOf(array, x) !== -1\<close>, on an array.\<close>

fun array_items :: "jsval \<Rightarrow> jsval list" where
  "array_items (VArr xs) = xs"
| "array_items _ = []"

definition arrayIndexOf_found :: "host \<Rightarrow> jsval \<Rightarrow> jsval \<Rightarrow> bool" where
  "arrayIndexOf_found h array x = list_ex (\<lambda>y. strict_eq h y x) (array_items array)"

section \<open>The engine: assertions and construction\<close>

text \<open>\<open>Object.create(matcher)\<close> with the given own properties.\<close>

definition matcher_object :: "(string \<times> jsval) list \<Rightarrow> jsval" where
  "matcher_object props = VObj props [] EndMatcher"

text \<open>
  \<open>isMatcher(object) = isPrototypeOf(matcher, object)\<close>: the \<open>matcher\<close> object is on the
  prototype chain of \<open>object\<close>. In the model that is a chain ending at \<open>matcher\<close>; a
  primitive or a built-in object has no such chain.
\<close>

fun isMatcher :: "jsval \<Rightarrow> bool" where
  "isMatcher (VObj props parents e) = (e = EndMatcher)"
| "isMatcher _ = False"

definition assertType :: "jsval \<Rightarrow> string \<Rightarrow> string \<Rightarrow> unit result" where
  "assertType value type name =
     (let actual = typeOf value in
      if actual \<noteq> type
      then Inl (TypeError (''Expected type of '' @ name @ '' to be '' @ type @ '', but was '' @ actual))
      else Inr ())"

text \<open>\<open>assertMethodExists(value, method, name, methodPath)\<close>; \<open>read\<close> stands for
  \<open>value[method]\<close>, the method being a symbol.\<close>

definition assertMethodExists :: "jsval \<Rightarrow> (jsval \<Rightarrow> jsval) \<Rightarrow> string \<Rightarrow> string \<Rightarrow> unit result" where
  "assertMethodExists value read name methodPath =
     (if value = VUndefined \<or> value = VNull then Inl NativeTypeError
      else if read value = VNull \<or> read value = VUndefined
      then Inl (TypeError (''Expected '' @ name @ '' to have method '' @ methodPath))
      else Inr ())"

definition assertMatcher :: "jsval \<Rightarrow> unit result" where
  "assertMatcher value = (if \<not> isMatcher value then Inl (TypeError ''Matcher expected'') else Inr ())"

definition isIterable :: "jsval \<Rightarrow> bool" where
  "isIterable value = (truthy value \<and> typeOf (get_prop value ''forEach'') = ''function'')"

subsection \<open>TYPE_MAP and createMatcher\<close>

text \<open>Each builder of \<open>TYPE_MAP\<close> receives the own properties of the fresh matcher \<open>m\<close>
  and returns them with \<open>test\<close> (and perhaps \<open>message\<close>) assigned.\<close>

definition TYPE_MAP_function ::
  "host \<Rightarrow> (string \<times> jsval) list \<Rightarrow> jsval \<Rightarrow> jsval \<Rightarrow> (string \<times> jsval) list" where
  "TYPE_MAP_function h m expectation message =
     put (put m ''test'' expectation) ''message''
       (if truthy message then message
        else VStr (''match('' @ functionName h expectation @ '')''))"

definition TYPE_MAP_number ::
  "host \<Rightarrow> (string \<times> jsval) list \<Rightarrow> jsval \<Rightarrow> jsval \<Rightarrow> (string \<times> jsval) list" where
  "TYPE_MAP_number h m expectation message = put m ''test'' (VFunc (Test_number expectation))"

definition TYPE_MAP_object ::
  "host \<Rightarrow> (string \<times> jsval) list \<Rightarrow> jsval \<Rightarrow> jsval \<Rightarrow> (string \<times> jsval) list" where
  "TYPE_MAP_object h m expectation message =
     (if js_typeof (get_prop expectation ''test'') = ''function''
      then put (put m ''test'' (VFunc (Test_adapter expectation))) ''message''
             (VStr (''match('' @ functionName h (get_prop expectation ''test'') @ '')''))
      else
        let array = map (\<lambda>key. key @ '': '' @ valueToString h (get_prop expectation key))
                      (object_keys expectation)
        in put (put m ''test'' (VFunc (Test_object expectation))) ''message''
             (VStr (''match('' @ join array '', '' @ '')'')))"

definition TYPE_MAP_regexp ::
  "host \<Rightarrow> (string \<times> jsval) list \<Rightarrow> jsval \<Rightarrow> jsval \<Rightarrow> (string \<times> jsval) list" where
  "TYPE_MAP_regexp h m expectation message = put m ''test'' (VFunc (Test_regexp expectation))"

definition TYPE_MAP_string ::
  "host \<Rightarrow> (string \<times> jsval) list \<Rightarrow> jsval \<Rightarrow> jsval \<Rightarrow> (string \<times> jsval) list" where
  "TYPE_MAP_string h m expectation message =
     put (put m ''test'' (VFunc (Test_string expectation))) ''message''
       (VStr (''match('' @ dquote @ str_val expectation @ dquote @ '')''))"

definition TYPE_MAP ::
  "string \<Rightarrow> (host \<Rightarrow> (string \<times> jsval) list \<Rightarrow> jsval \<Rightarrow> jsval \<Rightarrow> (string \<times> jsval) list) option" where
  "TYPE_MAP type =
     (if type = ''function'' then Some TYPE_MAP_function
      else if type = ''number'' then Some TYPE_MAP_number
      else if type = ''object'' then Some TYPE_MAP_object
      else if type = ''regexp'' then Some TYPE_MAP_regexp
      else if type = ''string'' then Some TYPE_MAP_string
      else None)"

text \<open>\<open>createMatcher(expectation, message)\<close>, called with the argument list \<open>args\<close>.\<close>

definition createMatcher :: "host \<Rightarrow> jsval list \<Rightarrow> jsval result" where
  "createMatcher h args =
     (let expectation = arg args 0;
          message = arg args 1;
          type = typeOf expectation
      in
      if message \<noteq> VUndefined \<and> js_typeof message \<noteq> ''string''
      then Inl (TypeError ''Message should be a string'')
      else if length args > 2
      then Inl (TypeError (''Expected 1 or 2 arguments, received '' @ show_nat (length args)))
      else
        let m = (case TYPE_MAP type of
                   Some builder \<Rightarrow> builder h [] expectation message
                 | None \<Rightarrow> put [] ''test'' (VFunc (Test_deepEqual expectation)));
            m' = (if \<not> truthy (get_prop (matcher_object m) ''message'')
                  then put m ''message'' (VStr (''match('' @ valueToString h expectation @ '')''))
                  else m)
        in Inr (matcher_object m'))"

subsection \<open>The combinators\<close>

text \<open>\<open>matcher.or\<close> and \<open>matcher.and\<close>, called on \<open>this\<close> with the argument list \<open>args\<close>.\<close>

definition matcher_or :: "host \<Rightarrow> jsval \<Rightarrow> jsval list \<Rightarrow> jsval result" where
  "matcher_or h this args =
     (if length args = 0 then Inl (TypeError ''Matcher expected'')
      else
        let valueOrMatcher = arg args 0 in
        bind_result (if isMatcher valueOrMatcher then Inr valueOrMatcher
                     else createMatcher h [valueOrMatcher])
          (\<lambda>m2.
             let m1 = this in
             bind_result (js_member m1 ''message'') (\<lambda>message1.
             bind_result (js_member m2 ''message'') (\<lambda>message2.
               Inr (matcher_object
                     [(''test'', VFunc (Test_or m1 m2)),
                      (''message'', VStr (js_to_string h message1 @ ''.or('' @
                                          js_to_string h message2 @ '')''))])))))"

definition matcher_and :: "host \<Rightarrow> jsval \<Rightarrow> jsval list \<Rightarrow> jsval result" where
  "matcher_and h this args =
     (if length args = 0 then Inl (TypeError ''Matcher expected'')
      else
        let valueOrMatcher = arg args 0 in
        bind_result (if isMatcher valueOrMatcher then Inr valueOrMatcher
                     else createMatcher h [valueOrMatcher])
          (\<lambda>m2.
             let m1 = this in
             bind_result (js_member m1 ''message'') (\<lambda>message1.
             bind_result (js_member m2 ''message'') (\<lambda>message2.
               Inr (matcher_object
                     [(''test'', VFunc (Test_and m1 m2)),
                      (''message'', VStr (js_to_string h message1 @ ''.and('' @
                                          js_to_string h message2 @ '')''))])))))"

subsection \<open>The namespace\<close>

definition createMatcher_any :: "host \<Rightarrow> jsval result" where
  "createMatcher_any h = createMatcher h [VFunc Test_any, VStr ''any'']"

definition createMatcher_defined :: "host \<Rightarrow> jsval result" where
  "createMatcher_defined h = createMatcher h [VFunc Test_defined, VStr ''defined'']"

definition createMatcher_truthy :: "host \<Rightarrow> jsval result" where
  "createMatcher_truthy h = createMatcher h [VFunc Test_truthy, VStr ''truthy'']"

definition createMatcher_falsy :: "host \<Rightarrow> jsval result" where
  "createMatcher_falsy h = createMatcher h [VFunc Test_falsy, VStr ''falsy'']"

definition createMatcher_same :: "host \<Rightarrow> jsval list \<Rightarrow> jsval result" where
  "createMatcher_same h args =
     (let expectation = arg args 0 in
      createMatcher h [VFunc (Test_same expectation),
                       VStr (''same('' @ valueToString h expectation @ '')'')])"

definition createMatcher_in :: "host \<Rightarrow> jsval list \<Rightarrow> jsval result" where
  "createMatcher_in h args =
     (let arrayOfExpectations = arg args 0 in
      if typeOf arrayOfExpectations \<noteq> ''array'' then Inl (TypeError ''array expected'')
      else createMatcher h [VFunc (Test_in arrayOfExpectations),
                            VStr (''in('' @ valueToString h arrayOfExpectations @ '')'')])"

definition createMatcher_typeOf :: "host \<Rightarrow> jsval list \<Rightarrow> jsval result" where
  "createMatcher_typeOf h args =
     (let type = arg args 0 in
      bind_result (assertType type ''string'' ''type'') (\<lambda>_.
        createMatcher h [VFunc (Test_typeOf type),
                         VStr (''typeOf('' @ dquote @ str_val type @ dquote @ '')'')]))"

definition createMatcher_instanceOf :: "host \<Rightarrow> jsval list \<Rightarrow> jsval result" where
  "createMatcher_instanceOf h args =
     (let type = arg args 0 in
      bind_result
        (if \<not> has_Symbol_hasInstance h then assertType type ''function'' ''type''
         else assertMethodExists type (symbol_hasInstance h) ''type'' ''[Symbol.hasInstance]'')
        (\<lambda>_. createMatcher h
                [VFunc (Test_instanceOf type),
                 VStr (''instanceOf('' @
                       (if functionName h type \<noteq> [] then functionName h type
                        else objectToString type) @ '')'')]))"

text \<open>\<open>createPropertyMatcher(propertyTest, messagePrefix)\<close> returns a function of
  \<open>(property, value)\<close>; here it is that function, called with \<open>args\<close>.\<close>

definition createPropertyMatcher :: "closure \<Rightarrow> string \<Rightarrow> host \<Rightarrow> jsval list \<Rightarrow> jsval result" where
  "createPropertyMatcher propertyTest messagePrefix h args =
     (let property = arg args 0; value = arg args 1 in
      bind_result (assertType property ''string'' ''property'') (\<lambda>_.
        let onlyProperty = (length args = 1);
            message = messagePrefix @ ''('' @ dquote @ str_val property @ dquote @
                      (if \<not> onlyProperty then '', '' @ valueToString h value else []) @ '')''
        in createMatcher h [VFunc (Test_property propertyTest property onlyProperty value),
                            VStr message]))"

definition createMatcher_has :: "host \<Rightarrow> jsval list \<Rightarrow> jsval result" where
  "createMatcher_has = createPropertyMatcher PropertyTest_has ''has''"

definition createMatcher_hasOwn :: "host \<Rightarrow> jsval list \<Rightarrow> jsval result" where
  "createMatcher_hasOwn = createPropertyMatcher PropertyTest_hasOwn ''hasOwn''"

definition createMatcher_hasNested :: "host \<Rightarrow> jsval list \<Rightarrow> jsval result" where
  "createMatcher_hasNested h args =
     (let property = arg args 0; value = arg args 1 in
      bind_result (assertType property ''string'' ''property'') (\<lambda>_.
        let onlyProperty = (length args = 1);
            message = ''hasNested('' @ dquote @ str_val property @ dquote @
                      (if \<not> onlyProperty then '', '' @ valueToString h value else []) @ '')''
        in createMatcher h [VFunc (Test_hasNested property onlyProperty value), VStr message]))"

definition createMatcher_every :: "host \<Rightarrow> jsval list \<Rightarrow> jsval result" where
  "createMatcher_every h args =
     (let predicate = arg args 0 in
      bind_result (assertMatcher predicate) (\<lambda>_.
        createMatcher h [VFunc (Test_every predicate),
                         VStr (''every('' @ js_to_string h (get_prop predicate ''message'') @ '')'')]))"

definition createMatcher_some :: "host \<Rightarrow> jsval list \<Rightarrow> jsval result" where
  "createMatcher_some h args =
     (let predicate = arg args 0 in
      bind_result (assertMatcher predicate) (\<lambda>_.
        createMatcher h [VFunc (Test_some predicate),
                         VStr (''some('' @ js_to_string h (get_prop predicate ''message'') @ '')'')]))"

text \<open>The builders of the array, map and set families. Each formats its argument with
  \<open>iterableToString\<close> for the message and checks nothing itself.\<close>

definition family_builder :: "(jsval \<Rightarrow> closure) \<Rightarrow> string \<Rightarrow> string \<Rightarrow> host \<Rightarrow> jsval list \<Rightarrow> jsval result" where
  "family_builder test opening closing h args =
     (let expectation = arg args 0 in
      bind_result (iterableToString h expectation) (\<lambda>s.
        createMatcher h [VFunc (test expectation), VStr (opening @ s @ closing)]))"

definition createMatcher_array_deepEquals :: "host \<Rightarrow> jsval list \<Rightarrow> jsval result" where
  "createMatcher_array_deepEquals = family_builder Test_array_deepEquals ''deepEquals(['' ''])''"

definition createMatcher_array_startsWith :: "host \<Rightarrow> jsval list \<Rightarrow> jsval result" where
  "createMatcher_array_startsWith = family_builder Test_array_startsWith ''startsWith(['' ''])''"

definition createMatcher_array_endsWith :: "host \<Rightarrow> jsval list \<Rightarrow> jsval result" where
  "createMatcher_array_endsWith = family_builder Test_array_endsWith ''endsWith(['' ''])''"

definition createMatcher_array_contains :: "host \<Rightarrow> jsval list \<Rightarrow> jsval result" where
  "createMatcher_array_contains = family_builder Test_array_contains ''contains(['' ''])''"

definition createMatcher_map_deepEquals :: "host \<Rightarrow> jsval list \<Rightarrow> jsval result" where
  "createMatcher_map_deepEquals = family_builder Test_map_deepEquals ''deepEquals(Map['' ''])''"

definition createMatcher_map_contains :: "host \<Rightarrow> jsval list \<Rightarrow> jsval result" where
  "createMatcher_map_contains = family_builder Test_map_contains ''contains(Map['' ''])''"

definition createMatcher_set_deepEquals :: "host \<Rightarrow> jsval list \<Rightarrow> jsval result" where
  "createMatcher_set_deepEquals = family_builder Test_set_deepEquals ''deepEquals(Set['' ''])''"

definition createMatcher_set_contains :: "host \<Rightarrow> jsval list \<Rightarrow> jsval result" where
  "createMatcher_set_contains = family_builder Test_set_contains ''contains(Set['' ''])''"

text \<open>Assignment of further own properties to a finished object
  (\<open>createMatcher.array.deepEquals = ...\<close>).\<close>

fun assign :: "jsval \<Rightarrow> (string \<times> jsval) list \<Rightarrow> jsval" where
  "assign (VObj props parents e) kvs = VObj (foldl (\<lambda>ps (k, v). put ps k v) props kvs) parents e"
| "assign v kvs = v"

definition createMatcher_array :: "host \<Rightarrow> jsval result" where
  "createMatcher_array h =
     bind_result (createMatcher_typeOf h [VStr ''array'']) (\<lambda>m.
       Inr (assign m [(''deepEquals'', VFunc Array_deepEquals),
                      (''startsWith'', VFunc Array_startsWith),
                      (''endsWith'', VFunc Array_endsWith),
                      (''contains'', VFunc Array_contains)]))"

definition createMatcher_map :: "host \<Rightarrow> jsval result" where
  "createMatcher_map h =
     bind_result (createMatcher_typeOf h [VStr ''map'']) (\<lambda>m.
       Inr (assign m [(''deepEquals'', VFunc Map_deepEquals),
                      (''contains'', VFunc Map_contains)]))"

definition createMatcher_set :: "host \<Rightarrow> jsval result" where
  "createMatcher_set h =
     bind_result (createMatcher_typeOf h [VStr ''set'']) (\<lambda>m.
       Inr (assign m [(''deepEquals'', VFunc Set_deepEquals),
                      (''contains'', VFunc Set_contains)]))"

definition createMatcher_bool :: "host \<Rightarrow> jsval result" where
  "createMatcher_bool h = createMatcher_typeOf h [VStr ''boolean'']"

definition createMatcher_number :: "host \<Rightarrow> jsval result" where
  "createMatcher_number h = createMatcher_typeOf h [VStr ''number'']"

definition createMatcher_string :: "host \<Rightarrow> jsval result" where
  "createMatcher_string h = createMatcher_typeOf h [VStr ''string'']"

definition createMatcher_object :: "host \<Rightarrow> jsval result" where
  "createMatcher_object h = createMatcher_typeOf h [VStr ''object'']"

definition createMatcher_func :: "host \<Rightarrow> jsval result" where
  "createMatcher_func h = createMatcher_typeOf h [VStr ''function'']"

definition createMatcher_regexp :: "host \<Rightarrow> jsval result" where
  "createMatcher_regexp h = createMatcher_typeOf h [VStr ''regexp'']"

definition createMatcher_date :: "host \<Rightarrow> jsval result" where
  "createMatcher_date h = createMatcher_typeOf h [VStr ''date'']"

definition createMatcher_symbol :: "host \<Rightarrow> jsval result" where
  "createMatcher_symbol h = createMatcher_typeOf h [VStr ''symbol'']"

section \<open>Running a matcher\<close>

text \<open>
  Built-in methods the engine calls on maps, sets and regular expressions; any other
  built-in is the host's.
\<close>

definition apply_native :: "host \<Rightarrow> string \<Rightarrow> jsval \<Rightarrow> jsval list \<Rightarrow> jsval result" where
  "apply_native h name this args =
     (if name = ''Map.prototype.has'' then
        (case this of
           VMap kvs \<Rightarrow> Inr (VBool (list_ex (\<lambda>(k, v). same_value_zero h k (arg args 0)) kvs))
         | _ \<Rightarrow> Inl NativeTypeError)
      else if name = ''Map.prototype.get'' then
        (case this of
           VMap kvs \<Rightarrow>
             Inr (case find (\<lambda>(k, v). same_value_zero h k (arg args 0)) kvs of
                    Some (k, v) \<Rightarrow> v
                  | None \<Rightarrow> VUndefined)
         | _ \<Rightarrow> Inl NativeTypeError)
      else if name = ''Set.prototype.has'' then
        (case this of
           VSet xs \<Rightarrow> Inr (VBool (list_ex (\<lambda>x. same_value_zero h x (arg args 0)) xs))
         | _ \<Rightarrow> Inl NativeTypeError)
      else if name = ''RegExp.prototype.test'' then
        (case this of
           VRegexp n \<Rightarrow> Inr (VBool (regexp_exec h n (js_to_string h (arg args 0))))
         | _ \<Rightarrow> Inl NativeTypeError)
      else call_native h name this args)"

text \<open>\<open>obj.name(args)\<close> for a map or a set, whose methods are built in.\<close>

definition call_builtin :: "host \<Rightarrow> jsval \<Rightarrow> string \<Rightarrow> jsval list \<Rightarrow> jsval result" where
  "call_builtin h obj name args =
     (case lookup obj name of
        Some (VFunc (CNative n)) \<Rightarrow> apply_native h n obj args
      | _ \<Rightarrow> Inl NativeTypeError)"

text \<open>Congruence rules and size bounds for the termination proof below.\<close>

lemma bind_result_cong [fundef_cong]:
  "r = r' \<Longrightarrow> (\<And>v. r' = Inr v \<Longrightarrow> f v = f' v) \<Longrightarrow> bind_result r f = bind_result r' f'"
  by (auto simp: bind_result_def split: sum.splits)

lemma every_cong [fundef_cong]:
  "h = h' \<Longrightarrow> obj = obj' \<Longrightarrow>
   (\<And>x i items. forEach_items h' obj' = Some items \<Longrightarrow> (x, i) \<in> set items \<Longrightarrow> fn x i = fn' x i) \<Longrightarrow>
   every h obj fn = every h' obj' fn'"
  by (auto simp: every_def list_all_iff split: option.splits)

lemma arrayEvery_cong [fundef_cong]:
  "xs = ys \<Longrightarrow> (\<And>x. x \<in> set ys \<Longrightarrow> f x = g x) \<Longrightarrow> arrayEvery xs f = arrayEvery ys g"
proof (induction xs arbitrary: ys)
  case Nil then show ?case by simp
next
  case (Cons a xs) then show ?case by (cases ys) (auto split: sum.splits)
qed

lemma map_of_size:
  "map_of ps k = Some w \<Longrightarrow> size w < size_list (size_prod (\<lambda>x. 0) size) ps"
  by (induction ps) (auto split: if_splits)

lemma nth_size: "i < length xs \<Longrightarrow> size (xs ! i) < Suc (size_list size xs)"
  using size_list_estimation'[of "xs ! i" xs "size (xs ! i)" size] by simp

definition builtin_value :: "jsval \<Rightarrow> bool" where
  "builtin_value w = (size w \<le> 1 \<and> typeOf w \<in> {''function'', ''number'', ''string''})"

lemma object_prototype_size: "object_prototype k = Some w \<Longrightarrow> builtin_value w"
  by (auto simp: object_prototype_def builtin_value_def split: if_splits)

lemma builtin_method_size: "builtin_method names cls k = Some w \<Longrightarrow> builtin_value w"
  by (auto simp: builtin_method_def builtin_value_def dest: object_prototype_size split: if_splits)

lemma chain_end_lookup_size: "chain_end_lookup e k = Some w \<Longrightarrow> builtin_value w"
  by (cases e) (auto simp: matcher_prototype_def builtin_value_def dest: object_prototype_size split: if_splits)

lemma parents_lookup_size:
  "parents_lookup ps e k = Some w \<Longrightarrow>
   size w < size_list (size_list (size_prod (\<lambda>x. 0) size)) ps \<or> builtin_value w"
proof (induction ps)
  case Nil then show ?case by (simp add: chain_end_lookup_size)
next
  case (Cons p ps)
  show ?case
  proof (cases "map_of p k")
    case None
    with Cons show ?thesis by auto
  next
    case (Some v)
    with Cons.prems have "w = v" by simp
    with Some map_of_size[of p k w] show ?thesis by simp
  qed
qed

lemma own_lookup_size:
  assumes "own_lookup v k = Some w"
  shows "size w < size v \<or> builtin_value w"
proof (cases v)
  case (VObj props parents e)
  with assms show ?thesis using map_of_size[of props k w] by auto
next
  case (VArr xs)
  with assms show ?thesis using nth_size[of _ xs]
    by (auto simp: builtin_value_def split: if_splits option.splits)
next
  case (VStr s)
  with assms show ?thesis by (auto simp: builtin_value_def split: if_splits option.splits)
qed (use assms in auto)

lemma inherited_lookup_size:
  assumes "inherited_lookup v k = Some w"
  shows "size w < size v \<or> builtin_value w"
proof (cases v)
  case (VObj props parents e)
  with assms show ?thesis using parents_lookup_size[of parents e k w] by auto
next
  case (VMap kvs)
  with assms show ?thesis
    by (auto simp: builtin_value_def dest: builtin_method_size split: if_splits)
next
  case (VSet xs)
  with assms show ?thesis
    by (auto simp: builtin_value_def dest: builtin_method_size split: if_splits)
qed (use assms in \<open>auto dest: builtin_method_size object_prototype_size\<close>)

lemma lookup_size: "lookup v k = Some w \<Longrightarrow> size w < size v \<or> builtin_value w"
  unfolding lookup_def
  using own_lookup_size[of v k w] inherited_lookup_size[of v k w]
  by (auto split: option.splits)

lemma get_prop_closure_size: "get_prop obj name = VFunc c \<Longrightarrow> size c \<le> size obj"
  using lookup_size[of obj name "VFunc c"]
  by (auto simp: get_prop_def builtin_value_def split: option.splits)

lemma object_keys_size:
  assumes "key \<in> set (object_keys e)"
  shows "size (get_prop e key) < size e"
proof (cases e)
  case (VObj props parents en)
  with assms have "key \<in> fst ` set props" by simp
  then obtain w where "map_of props key = Some w"
    by (cases "map_of props key") (auto simp: map_of_eq_None_iff)
  with VObj show ?thesis using map_of_size[of props key w]
    by (simp add: get_prop_def lookup_def)
qed (use assms in auto)

lemma get_prop_array_size:
  assumes a: "typeOf (get_prop v k) = ''array''"
  shows "size (get_prop v k) < size v"
proof -
  from a obtain w where w: "lookup v k = Some w" "get_prop v k = w"
    by (auto simp: get_prop_def split: option.splits)
  with a lookup_size[OF w(1)] show ?thesis by (auto simp: builtin_value_def)
qed

lemma get_at_array_size:
  assumes a: "typeOf (get_at h v key) = ''array''"
  shows "size (get_at h v key) < size v"
proof (cases "get_at h v key = get_prop v (js_to_string h key)")
  case True
  with a show ?thesis using get_prop_array_size[of v "js_to_string h key"] by simp
next
  case False
  then show ?thesis using a nth_size
    by (auto simp: get_at_def split: jsval.splits jsnum.splits if_splits)
qed

text \<open>
  \<open>call h c this args\<close> runs the body of the closure \<open>c\<close>; \<open>invoke h obj name args\<close>
  is the method call \<open>obj.name(args)\<close>; \<open>matchObject\<close> is the function of that name.
  The three are mutually recursive: a test calls the tests of the matchers it captured.
  Each recursive call descends into a captured value, so the recursion ends (values are
  finite trees; a cyclic expectation cannot be written down).

  In \<open>Test_array_deepEquals\<close> the source builds \<open>createMatcher.array.deepEquals(expected)\<close>
  and calls its \<open>test\<close>; the model builds it and runs the closure the builder installs
  (lemma \<open>nested_array_deepEquals\<close> below shows that this is the \<open>test\<close> of the built
  matcher).
\<close>

function call :: "host \<Rightarrow> closure \<Rightarrow> jsval \<Rightarrow> jsval list \<Rightarrow> jsval result"
  and invoke :: "host \<Rightarrow> jsval \<Rightarrow> string \<Rightarrow> jsval list \<Rightarrow> jsval result"
  and matchObject :: "host \<Rightarrow> jsval \<Rightarrow> jsval \<Rightarrow> bool result"
where
  "invoke h obj name args =
     (if obj = VUndefined \<or> obj = VNull then Inl NativeTypeError
      else case get_prop obj name of
             VFunc c \<Rightarrow> call h c obj args
           | _ \<Rightarrow> Inl NativeTypeError)"
| "matchObject h actual expectation =
     (if actual = VNull \<or> actual = VUndefined then Inr False
      else arrayEvery (object_keys expectation) (\<lambda>key.
             let exp = get_prop expectation key;
                 act = get_prop actual key
             in if isMatcher exp
                then bind_result (invoke h exp ''test'' [act]) (\<lambda>r. Inr (truthy r))
                else if typeOf exp = ''object''
                then matchObject h act exp
                else Inr (deepEqual h act exp)))"
| "call h (CUser n) this args = call_user h n this args"
| "call h (CNative name) this args = apply_native h name this args"
| "call h Matcher_toString this args = js_member this ''message''"
| "call h Matcher_or this args = matcher_or h this args"
| "call h Matcher_and this args = matcher_and h this args"
| "call h (Test_number expectation) this args =
     bind_result (loose_eq h expectation (arg args 0)) (\<lambda>b. Inr (VBool b))"
| "call h (Test_adapter expectation) this args =
     bind_result (invoke h expectation ''test'' [arg args 0])
       (\<lambda>r. Inr (VBool (strict_eq h r (VBool True))))"
| "call h (Test_object expectation) this args =
     bind_result (matchObject h (arg args 0) expectation) (\<lambda>b. Inr (VBool b))"
| "call h (Test_regexp expectation) this args =
     (if js_typeof (arg args 0) = ''string''
      then invoke h expectation ''test'' [arg args 0]
      else Inr (VBool False))"
| "call h (Test_string expectation) this args =
     Inr (VBool (js_typeof (arg args 0) = ''string'' \<and>
                 stringIndexOf_found (str_val (arg args 0)) (str_val expectation)))"
| "call h (Test_deepEqual expectation) this args = Inr (VBool (deepEqual h (arg args 0) expectation))"
| "call h (Test_or m1 m2) this args =
     bind_result (invoke h m1 ''test'' [arg args 0])
       (\<lambda>r. if truthy r then Inr r else invoke h m2 ''test'' [arg args 0])"
| "call h (Test_and m1 m2) this args =
     bind_result (invoke h m1 ''test'' [arg args 0])
       (\<lambda>r. if truthy r then invoke h m2 ''test'' [arg args 0] else Inr r)"
| "call h Test_any this args = Inr (VBool True)"
| "call h Test_defined this args = Inr (VBool (arg args 0 \<noteq> VNull \<and> arg args 0 \<noteq> VUndefined))"
| "call h Test_truthy this args = Inr (VBool (truthy (arg args 0)))"
| "call h Test_falsy this args = Inr (VBool (\<not> truthy (arg args 0)))"
| "call h (Test_same expectation) this args = Inr (VBool (strict_eq h expectation (arg args 0)))"
| "call h (Test_in arrayOfExpectations) this args =
     Inr (VBool (list_ex (\<lambda>expectation. strict_eq h expectation (arg args 0))
                   (array_items arrayOfExpectations)))"
| "call h (Test_typeOf type) this args = Inr (VBool (strict_eq h (VStr (typeOf (arg args 0))) type))"
| "call h (Test_instanceOf type) this args =
     bind_result (instance_of h (arg args 0) type) (\<lambda>b. Inr (VBool b))"
| "call h (Test_property propertyTest property onlyProperty value) this args =
     (let actual = arg args 0 in
      if actual = VUndefined \<or> actual = VNull then Inr (VBool False)
      else bind_result (call h propertyTest VUndefined [actual, property])
             (\<lambda>r. if \<not> truthy r then Inr (VBool False)
                  else if onlyProperty then Inr (VBool True)
                  else Inr (VBool (deepEqual h (get_at h actual property) value))))"
| "call h PropertyTest_has this args =
     (let actual = arg args 0; property = arg args 1 in
      if js_typeof actual = ''object''
      then (if actual = VNull then Inl NativeTypeError
            else Inr (VBool (has_property actual (js_to_string h property))))
      else bind_result (js_member actual (js_to_string h property))
             (\<lambda>v. Inr (VBool (\<not> strict_eq h v VUndefined))))"
| "call h PropertyTest_hasOwn this args =
     (let actual = arg args 0; property = arg args 1 in
      if actual = VUndefined \<or> actual = VNull then Inl NativeTypeError
      else Inr (VBool (hasOwnProperty actual (js_to_string h property))))"
| "call h (Test_hasNested property onlyProperty value) this args =
     (let actual = arg args 0 in
      if actual = VUndefined \<or> actual = VNull \<or> strict_eq h (lodash_get h actual property) VUndefined
      then Inr (VBool False)
      else if onlyProperty then Inr (VBool True)
      else Inr (VBool (deepEqual h (lodash_get h actual property) value)))"
| "call h (Test_every predicate) this args =
     (let actual = arg args 0 in
      if typeOf actual = ''object''
      then Inr (VBool (every h (VArr (map VStr (object_keys actual)))
                         (\<lambda>key i. invoke h predicate ''test'' [get_at h actual key])))
      else Inr (VBool (isIterable actual \<and>
                       every h actual (\<lambda>element i. invoke h predicate ''test'' [element]))))"
| "call h (Test_some predicate) this args =
     (let actual = arg args 0 in
      if typeOf actual = ''object''
      then Inr (VBool (\<not> every h (VArr (map VStr (object_keys actual)))
                           (\<lambda>key i. bind_result (invoke h predicate ''test'' [get_at h actual key])
                                      (\<lambda>r. Inr (VBool (\<not> truthy r))))))
      else Inr (VBool (isIterable actual \<and>
                       \<not> every h actual
                           (\<lambda>element i. bind_result (invoke h predicate ''test'' [element])
                                          (\<lambda>r. Inr (VBool (\<not> truthy r)))))))"
| "call h (Test_array_deepEquals expectation) this args =
     (let actual = arg args 0 in
      bind_result (js_member actual ''length'') (\<lambda>actual_length.
      bind_result (js_member expectation ''length'') (\<lambda>expectation_length.
        let sameLength = strict_eq h actual_length expectation_length in
        Inr (VBool (typeOf actual = ''array'' \<and> sameLength \<and>
                    every h actual (\<lambda>element index.
                      let expected = get_at h expectation index in
                      if typeOf expected = ''array'' \<and> typeOf element = ''array''
                      then bind_result (createMatcher_array_deepEquals h [expected])
                             (\<lambda>m. call h (Test_array_deepEquals expected) m [element])
                      else Inr (VBool (deepEqual h expected element))))))))"
| "call h (Test_array_startsWith expectation) this args =
     (let actual = arg args 0 in
      Inr (VBool (typeOf actual = ''array'' \<and>
                  every h expectation (\<lambda>expectedElement index.
                    Inr (VBool (strict_eq h (get_at h actual index) expectedElement))))))"
| "call h (Test_array_endsWith expectation) this args =
     (let actual = arg args 0 in
      bind_result (js_member actual ''length'') (\<lambda>actual_length.
      bind_result (js_member expectation ''length'') (\<lambda>expectation_length.
      bind_result (js_minus h actual_length expectation_length) (\<lambda>offset.
        Inr (VBool (typeOf actual = ''array'' \<and>
                    every h expectation (\<lambda>expectedElement index.
                      bind_result (js_add h offset index) (\<lambda>k.
                        Inr (VBool (strict_eq h (get_at h actual k) expectedElement))))))))))"
| "call h (Test_array_contains expectation) this args =
     (let actual = arg args 0 in
      Inr (VBool (typeOf actual = ''array'' \<and>
                  every h expectation (\<lambda>expectedElement index.
                    Inr (VBool (arrayIndexOf_found h actual expectedElement))))))"
| "call h (Test_map_deepEquals expectation) this args =
     (let actual = arg args 0 in
      bind_result (js_member actual ''size'') (\<lambda>actual_size.
      bind_result (js_member expectation ''size'') (\<lambda>expectation_size.
        let sameLength = strict_eq h actual_size expectation_size in
        Inr (VBool (typeOf actual = ''map'' \<and> sameLength \<and>
                    every h actual (\<lambda>element key.
                      bind_result (invoke h expectation ''has'' [key]) (\<lambda>r.
                        if \<not> truthy r then Inr r
                        else bind_result (invoke h expectation ''get'' [key]) (\<lambda>v.
                               Inr (VBool (strict_eq h v element))))))))))"
| "call h (Test_map_contains expectation) this args =
     (let actual = arg args 0 in
      Inr (VBool (typeOf actual = ''map'' \<and>
                  every h expectation (\<lambda>element key.
                    bind_result (call_builtin h actual ''has'' [key]) (\<lambda>r.
                      if \<not> truthy r then Inr r
                      else bind_result (call_builtin h actual ''get'' [key]) (\<lambda>v.
                             Inr (VBool (strict_eq h v element))))))))"
| "call h (Test_set_deepEquals expectation) this args =
     (let actual = arg args 0 in
      bind_result (js_member actual ''size'') (\<lambda>actual_size.
      bind_result (js_member expectation ''size'') (\<lambda>expectation_size.
        let sameLength = strict_eq h actual_size expectation_size in
        Inr (VBool (typeOf actual = ''set'' \<and> sameLength \<and>
                    every h actual (\<lambda>element key. invoke h expectation ''has'' [element]))))))"
| "call h (Test_set_contains expectation) this args =
     (let actual = arg args 0 in
      Inr (VBool (typeOf actual = ''set'' \<and>
                  every h expectation (\<lambda>element key. call_builtin h actual ''has'' [element]))))"
| "call h Array_deepEquals this args = createMatcher_array_deepEquals h args"
| "call h Array_startsWith this args = createMatcher_array_startsWith h args"
| "call h Array_endsWith this args = createMatcher_array_endsWith h args"
| "call h Array_contains this args = createMatcher_array_contains h args"
| "call h Map_deepEquals this args = createMatcher_map_deepEquals h args"
| "call h Map_contains this args = createMatcher_map_contains h args"
| "call h Set_deepEquals this args = createMatcher_set_deepEquals h args"
| "call h Set_contains this args = createMatcher_set_contains h args"
| "call h Fn_createMatcher this args = createMatcher h args"
| "call h Fn_isMatcher this args = Inr (VBool (isMatcher (arg args 0)))"
| "call h Fn_same this args = createMatcher_same h args"
| "call h Fn_in this args = createMatcher_in h args"
| "call h Fn_typeOf this args = createMatcher_typeOf h args"
| "call h Fn_instanceOf this args = createMatcher_instanceOf h args"
| "call h Fn_has this args = createMatcher_has h args"
| "call h Fn_hasOwn this args = createMatcher_hasOwn h args"
| "call h Fn_hasNested this args = createMatcher_hasNested h args"
| "call h Fn_every this args = createMatcher_every h args"
| "call h Fn_some this args = createMatcher_some h args"
  by pat_completeness auto




termination
  apply (relation "measure (\<lambda>x. case x of
           Inl (h, c, this, args) \<Rightarrow> 2 * size c
         | Inr (Inl (h, obj, name, args)) \<Rightarrow> 2 * size obj + 1
         | Inr (Inr (h, actual, expectation)) \<Rightarrow> 2 * size expectation + 1)")
  apply (simp_all add: object_keys_size get_at_array_size)
  apply (drule get_prop_closure_size)
  apply simp
  done


declare call.simps [simp del]
declare invoke.simps [simp del]
declare matchObject.simps [simp del]

text \<open>\<open>builder(...).test(actual)\<close>: the builder's exception, or the result of the test.\<close>

definition run_test :: "host \<Rightarrow> jsval result \<Rightarrow> jsval \<Rightarrow> jsval result" where
  "run_test h built actual = bind_result built (\<lambda>m. invoke h m ''test'' [actual])"

text \<open>
  A concrete host, for running the model on examples: deep equality is equality of the
  value trees, the formatters print nothing (the iterable formatter raises on what has no
  \<open>forEach\<close>), caller functions return undefined, no object has a \<open>Symbol.hasInstance\<close>
  method but functions.
\<close>

definition example_host :: host where
  "example_host =
     \<lparr> deepEqual = (\<lambda>a b. a = b),
       valueToString = (\<lambda>v. []),
       functionName = (\<lambda>v. []),
       iterableToString = (\<lambda>v. case v of VArr xs \<Rightarrow> Inr [] | VMap kvs \<Rightarrow> Inr []
                                  | VSet xs \<Rightarrow> Inr [] | _ \<Rightarrow> Inl NativeTypeError),
       lodash_get = (\<lambda>v path. get_prop v (str_val path)),
       call_user = (\<lambda>n this args. Inr VUndefined),
       call_native = (\<lambda>name this args. Inr VUndefined),
       regexp_exec = (\<lambda>n s. False),
       instance_of = (\<lambda>v type. Inr False),
       has_Symbol_hasInstance = True,
       symbol_hasInstance = (\<lambda>v. case v of VFunc c \<Rightarrow> VFunc (CNative ''Function.prototype[Symbol.hasInstance]'') | _ \<Rightarrow> VUndefined),
       to_primitive = (\<lambda>v. Inr (VStr [])),
       string_to_number = (\<lambda>s. NaN),
       to_string = (\<lambda>v. []),
       js_plus = (\<lambda>a b. Inr (VStr [])),
       same_object = (\<lambda>a b. a = b),
       user_forEach = (\<lambda>n obj. None) \<rparr>"

section \<open>What the factory builds\<close>

lemma message_absent: "get_prop (matcher_object [(''test'', t)]) ''message'' = VUndefined"
  by (simp add: get_prop_def lookup_def matcher_object_def matcher_prototype_def object_prototype_def object_prototype_names_def)

lemma message_present:
  "get_prop (matcher_object [(''test'', t), (''message'', v)]) ''message'' = v"
  by (simp add: get_prop_def lookup_def matcher_object_def)

lemma invoke_test:
  "invoke h (matcher_object ((''test'', VFunc c) # ps)) ''test'' args =
   call h c (matcher_object ((''test'', VFunc c) # ps)) args"
  by (simp add: invoke.simps matcher_object_def get_prop_def lookup_def)

lemma createMatcher_function:
  "msg \<noteq> [] \<Longrightarrow>
   createMatcher h [VFunc c, VStr msg] =
   Inr (matcher_object [(''test'', VFunc c), (''message'', VStr msg)])"
  by (simp add: createMatcher_def arg_def TYPE_MAP_def TYPE_MAP_function_def Let_def message_present)

lemma run_test_function:
  "msg \<noteq> [] \<Longrightarrow>
   run_test h (createMatcher h [VFunc c, VStr msg]) actual =
   call h c (matcher_object [(''test'', VFunc c), (''message'', VStr msg)]) [actual]"
  by (simp add: run_test_def createMatcher_function bind_result_def invoke_test)

lemma createMatcher_number:
  "createMatcher h [VNum n] =
   Inr (matcher_object [(''test'', VFunc (Test_number (VNum n))),
                        (''message'', VStr (''match('' @ valueToString h (VNum n) @ '')''))])"
  by (simp add: createMatcher_def arg_def TYPE_MAP_def TYPE_MAP_number_def message_absent Let_def)

lemma createMatcher_number_message:
  "createMatcher h [VNum n, VStr msg] =
   Inr (matcher_object [(''test'', VFunc (Test_number (VNum n))),
                        (''message'', VStr (''match('' @ valueToString h (VNum n) @ '')''))])"
  by (simp add: createMatcher_def arg_def TYPE_MAP_def TYPE_MAP_number_def message_absent Let_def)

text \<open>
  C8. For a number expectation \<open>n\<close>, \<open>createMatcher(n).test(actual)\<close> is the coercive
  comparison \<open>n == actual\<close>, for every \<open>actual\<close> and with or without a message; the
  comparison is not the strict one: \<open>createMatcher(1).test(true)\<close> is true although
  \<open>1 === true\<close> is false.
\<close>

theorem number_test_is_loose_equality:
  "run_test h (createMatcher h [VNum n]) actual =
     bind_result (loose_eq h (VNum n) actual) (\<lambda>b. Inr (VBool b)) \<and>
   run_test h (createMatcher h [VNum n, VStr msg]) actual =
     bind_result (loose_eq h (VNum n) actual) (\<lambda>b. Inr (VBool b)) \<and>
   run_test h (createMatcher h [VNum (Fin 1)]) (VBool True) = Inr (VBool True) \<and>
   \<not> strict_eq h (VNum (Fin 1)) (VBool True)"
  by (simp add: run_test_def createMatcher_number createMatcher_number_message bind_result_def
      invoke_test call.simps arg_def loose_eq_def prim_loose_eq_def strict_eq_def)

section \<open>The structural object matcher\<close>

lemma empty_object_test_absent:
  "js_typeof (get_prop (VObj [] [] EndObject) ''test'') \<noteq> ''function''"
  by (simp add: get_prop_def lookup_def object_prototype_def object_prototype_names_def)

lemma createMatcher_empty_object:
  "createMatcher h [VObj [] [] EndObject] =
   Inr (matcher_object [(''test'', VFunc (Test_object (VObj [] [] EndObject))),
                        (''message'', VStr ''match()'')])"
  using empty_object_test_absent
  by (simp add: createMatcher_def arg_def TYPE_MAP_def TYPE_MAP_object_def Let_def message_present)

text \<open>
  C10. \<open>createMatcher({}).test(actual)\<close> is true for every \<open>actual\<close> that is neither null
  nor undefined, and false for null and for undefined.
\<close>

theorem empty_object_matches_all_but_null_and_undefined:
  "run_test h (createMatcher h [VObj [] [] EndObject]) actual =
   Inr (VBool (actual \<noteq> VNull \<and> actual \<noteq> VUndefined))"
  by (simp add: run_test_def createMatcher_empty_object bind_result_def invoke_test call.simps
      arg_def matchObject.simps)


section \<open>Property matchers\<close>

lemma strict_eq_undefined: "strict_eq h v VUndefined = (v = VUndefined)"
  by (cases v) (auto simp: strict_eq_def)

lemma createPropertyMatcher_built:
  "createPropertyMatcher propertyTest prefix h (VStr p # rest) =
   Inr (matcher_object
         [(''test'', VFunc (Test_property propertyTest (VStr p) (rest = []) (arg (VStr p # rest) 1))),
          (''message'', VStr (prefix @ ''('' @ dquote @ p @ dquote @
                              (if rest \<noteq> [] then '', '' @ valueToString h (arg (VStr p # rest) 1) else []) @ '')''))])"
  by (simp add: createPropertyMatcher_def arg_def assertType_def bind_result_def Let_def
      createMatcher_function)

lemma has_test:
  "run_test h (createMatcher_has h [VStr p]) actual =
   Inr (VBool (actual \<noteq> VUndefined \<and> actual \<noteq> VNull \<and>
               (if js_typeof actual = ''object'' then has_property actual p
                else get_prop actual p \<noteq> VUndefined)))"
  by (simp add: run_test_def createMatcher_has_def createPropertyMatcher_built bind_result_def
      invoke_test call.simps arg_def Let_def js_member_def strict_eq_undefined)

lemma hasOwn_test:
  "run_test h (createMatcher_hasOwn h [VStr p]) actual =
   Inr (VBool (actual \<noteq> VUndefined \<and> actual \<noteq> VNull \<and> hasOwnProperty actual p))"
  by (simp add: run_test_def createMatcher_hasOwn_def createPropertyMatcher_built bind_result_def
      invoke_test call.simps arg_def Let_def)

text \<open>
  C2, as stated, fails on its first example: \<open>createMatcher.has("x").test({x: undefined})\<close>
  is true, because for an object the property test is \<open>property in actual\<close>.
\<close>

theorem has_undefined_property_counterexample:
  "run_test example_host (createMatcher_has example_host [VStr ''x''])
     (VObj [(''x'', VUndefined)] [] EndObject) = Inr (VBool True)"
  by (simp add: has_test has_property_def lookup_def)

text \<open>
  C2, amended. In existence-only mode \<open>createMatcher.has("x").test({x: undefined})\<close> is
  true (the property is there, whatever its value);
  \<open>createMatcher.hasOwn("x").test(Object.create({x: 1}))\<close> is false and
  \<open>createMatcher.has("x").test(Object.create({x: 1}))\<close> is true.
\<close>

theorem has_and_hasOwn_existence:
  "run_test h (createMatcher_has h [VStr ''x'']) (VObj [(''x'', VUndefined)] [] EndObject)
     = Inr (VBool True) \<and>
   run_test h (createMatcher_hasOwn h [VStr ''x'']) (VObj [] [[(''x'', VNum (Fin 1))]] EndObject)
     = Inr (VBool False) \<and>
   run_test h (createMatcher_has h [VStr ''x'']) (VObj [] [[(''x'', VNum (Fin 1))]] EndObject)
     = Inr (VBool True)"
  by (simp add: has_test hasOwn_test has_property_def hasOwnProperty_def lookup_def)


section \<open>The array family\<close>

lemma every_array:
  "every h (VArr ys) fn =
   (\<forall>i<length ys. case fn (ys ! i) (VNum (Fin (int i))) of Inl e \<Rightarrow> False | Inr v \<Rightarrow> truthy v)"
  by (simp add: every_def forEach_items_def list_all_length)

lemma family_builder_built:
  assumes "iterableToString h expectation = Inr s" and "opening \<noteq> []"
  shows "family_builder test opening closing h [expectation] =
         Inr (matcher_object [(''test'', VFunc (test expectation)),
                              (''message'', VStr (opening @ s @ closing))])"
  using assms
  by (simp add: family_builder_def arg_def bind_result_def Let_def createMatcher_function)

lemma endsWith_array_on_array:
  "call h (Test_array_endsWith (VArr ys)) this [VArr xs] =
   Inr (VBool (\<forall>i<length ys.
          strict_eq h (get_at h (VArr xs) (VNum (Fin (int (length xs) - int (length ys) + int i))))
            (ys ! i)))"
  by (simp add: call.simps arg_def js_member_def get_prop_def lookup_def bind_result_def
      js_minus_def to_number_def js_add_def every_array Let_def)

lemma endsWith_array_not_array:
  assumes "typeOf actual \<noteq> ''array''"
  shows "call h (Test_array_endsWith (VArr ys)) this [actual] \<noteq> Inr (VBool True)"
  using assms
  by (auto simp: call.simps arg_def bind_result_def Let_def split: sum.splits)

lemma typeOf_array: "typeOf v = ''array'' \<longleftrightarrow> (\<exists>xs. v = VArr xs)"
  by (cases v) auto

lemma run_endsWith:
  assumes "iterableToString h (VArr ys) = Inr s"
  shows "run_test h (createMatcher_array_endsWith h [VArr ys]) actual =
         call h (Test_array_endsWith (VArr ys))
           (matcher_object [(''test'', VFunc (Test_array_endsWith (VArr ys))),
                            (''message'', VStr (''endsWith(['' @ s @ ''])''))]) [actual]"
  using assms
  by (simp add: run_test_def createMatcher_array_endsWith_def family_builder_built
      bind_result_def invoke_test)

text \<open>
  C7, as stated, fails in its last part: an \<open>actual\<close> strictly shorter than the suffix
  can match. \<open>createMatcher.array.endsWith([undefined, 1]).test([1])\<close> is true: the offset
  is \<open>-1\<close>, \<open>actual[-1]\<close> is undefined and so is the first element of the suffix.
\<close>

theorem endsWith_shorter_actual_counterexample:
  "run_test example_host
     (createMatcher_array_endsWith example_host [VArr [VUndefined, VNum (Fin 1)]])
     (VArr [VNum (Fin 1)]) = Inr (VBool True)"
proof -
  have "iterableToString example_host (VArr [VUndefined, VNum (Fin 1)]) = Inr []"
    by (simp add: example_host_def)
  then show ?thesis
    by (simp add: run_endsWith endsWith_array_on_array get_at_def strict_eq_def
        less_Suc_eq all_conj_distrib)
qed

text \<open>
  C7, amended. \<open>array.endsWith(suffix).test(actual)\<close> holds iff \<open>actual\<close> is an array and
  for every index \<open>i\<close> of \<open>suffix\<close>,
  \<open>actual[actual.length - suffix.length + i] === suffix[i]\<close>; there is no length guard,
  and for an \<open>actual\<close> strictly shorter than \<open>suffix\<close> the match fails whenever one of
  the first \<open>suffix.length - actual.length\<close> elements of \<open>suffix\<close> is not undefined.
  (The hypothesis says that the builder could format the suffix for its message.)
\<close>

theorem endsWith_offset_comparison:
  assumes "iterableToString h (VArr suffix) = Inr s"
  shows "(run_test h (createMatcher_array_endsWith h [VArr suffix]) actual = Inr (VBool True)
          \<longleftrightarrow> (\<exists>xs. actual = VArr xs \<and>
                 (\<forall>i<length suffix.
                    strict_eq h
                      (get_at h actual (VNum (Fin (int (length xs) - int (length suffix) + int i))))
                      (suffix ! i))))
         \<and> (\<forall>xs. actual = VArr xs \<and> length xs < length suffix \<and>
                  (\<exists>i<length suffix - length xs. suffix ! i \<noteq> VUndefined) \<longrightarrow>
                  run_test h (createMatcher_array_endsWith h [VArr suffix]) actual
                    = Inr (VBool False))"
proof (intro conjI allI impI)
  show "run_test h (createMatcher_array_endsWith h [VArr suffix]) actual = Inr (VBool True)
        \<longleftrightarrow> (\<exists>xs. actual = VArr xs \<and>
               (\<forall>i<length suffix.
                  strict_eq h
                    (get_at h actual (VNum (Fin (int (length xs) - int (length suffix) + int i))))
                    (suffix ! i)))"
  proof (cases "typeOf actual = ''array''")
    case True
    then obtain xs where "actual = VArr xs" by (auto simp: typeOf_array)
    then show ?thesis
      by (simp add: run_endsWith[OF assms] endsWith_array_on_array)
  next
    case False
    then show ?thesis
      using endsWith_array_not_array[OF False, of h suffix]
      by (auto simp: run_endsWith[OF assms])
  qed
next
  fix xs
  assume a: "actual = VArr xs \<and> length xs < length suffix \<and>
             (\<exists>i<length suffix - length xs. suffix ! i \<noteq> VUndefined)"
  then obtain i where i: "i < length suffix - length xs" "suffix ! i \<noteq> VUndefined" by blast
  have neg: "int (length xs) - int (length suffix) + int i < 0" using i a by linarith
  have "get_at h (VArr xs) (VNum (Fin (int (length xs) - int (length suffix) + int i))) = VUndefined"
    using neg by (simp add: get_at_def)
  then have "\<not> strict_eq h
      (get_at h (VArr xs) (VNum (Fin (int (length xs) - int (length suffix) + int i)))) (suffix ! i)"
    using i(2) by (simp add: strict_eq_def)
  moreover have "i < length suffix" using i by simp
  ultimately show "run_test h (createMatcher_array_endsWith h [VArr suffix]) actual
                    = Inr (VBool False)"
    using a by (auto simp: run_endsWith[OF assms] endsWith_array_on_array)
qed

theorem endsWith_offset_comparison_witness:
  "iterableToString example_host (VArr [VNum (Fin 2), VNum (Fin 3)]) = Inr [] \<and>
   run_test example_host
     (createMatcher_array_endsWith example_host [VArr [VNum (Fin 2), VNum (Fin 3)]])
     (VArr [VNum (Fin 1), VNum (Fin 2), VNum (Fin 3)]) = Inr (VBool True) \<and>
   run_test example_host
     (createMatcher_array_endsWith example_host [VArr [VNum (Fin 2), VNum (Fin 3)]])
     (VArr [VNum (Fin 3)]) = Inr (VBool False)"
proof -
  have f: "iterableToString example_host (VArr [VNum (Fin 2), VNum (Fin 3)]) = Inr []"
    by (simp add: example_host_def)
  note t = endsWith_offset_comparison[OF f]
  have 1: "run_test example_host
     (createMatcher_array_endsWith example_host [VArr [VNum (Fin 2), VNum (Fin 3)]])
     (VArr [VNum (Fin 1), VNum (Fin 2), VNum (Fin 3)]) = Inr (VBool True)"
    using t[of "VArr [VNum (Fin 1), VNum (Fin 2), VNum (Fin 3)]"]
    by (simp add: get_at_def strict_eq_def less_Suc_eq all_conj_distrib)
  have 2: "run_test example_host
     (createMatcher_array_endsWith example_host [VArr [VNum (Fin 2), VNum (Fin 3)]])
     (VArr [VNum (Fin 3)]) = Inr (VBool False)"
    using t[of "VArr [VNum (Fin 3)]"] by auto
  from f 1 2 show ?thesis by simp
qed


section \<open>The combinators or and and\<close>

text \<open>\<open>a || b\<close> and \<open>a && b\<close> on the outcomes of two calls: the right operand is looked at
  only when the left one returned and did not decide.\<close>

definition js_or :: "jsval result \<Rightarrow> jsval result \<Rightarrow> jsval result" where
  "js_or r1 r2 = bind_result r1 (\<lambda>v. if truthy v then Inr v else r2)"

definition js_and :: "jsval result \<Rightarrow> jsval result \<Rightarrow> jsval result" where
  "js_and r1 r2 = bind_result r1 (\<lambda>v. if truthy v then r2 else Inr v)"

lemma js_or_assoc: "js_or (js_or a b) c = js_or a (js_or b c)"
  by (cases a) (auto simp: js_or_def bind_result_def)

lemma js_and_assoc: "js_and (js_and a b) c = js_and a (js_and b c)"
  by (cases a) (auto simp: js_and_def bind_result_def)

lemma isMatcher_VObj: "isMatcher m \<longleftrightarrow> (\<exists>props parents. m = VObj props parents EndMatcher)"
  by (cases m) auto

lemma isMatcher_matcher_object: "isMatcher (matcher_object ps)"
  by (simp add: matcher_object_def)

lemma matcher_or_built:
  assumes "isMatcher m1" "isMatcher m2"
  shows "matcher_or h m1 (m2 # rest) =
         Inr (matcher_object
               [(''test'', VFunc (Test_or m1 m2)),
                (''message'', VStr (js_to_string h (get_prop m1 ''message'') @ ''.or('' @
                                    js_to_string h (get_prop m2 ''message'') @ '')''))])"
  using assms
  by (auto simp: isMatcher_VObj matcher_or_def arg_def bind_result_def js_member_def Let_def)

lemma matcher_and_built:
  assumes "isMatcher m1" "isMatcher m2"
  shows "matcher_and h m1 (m2 # rest) =
         Inr (matcher_object
               [(''test'', VFunc (Test_and m1 m2)),
                (''message'', VStr (js_to_string h (get_prop m1 ''message'') @ ''.and('' @
                                    js_to_string h (get_prop m2 ''message'') @ '')''))])"
  using assms
  by (auto simp: isMatcher_VObj matcher_and_def arg_def bind_result_def js_member_def Let_def)

lemma or_test:
  "invoke h (matcher_object ((''test'', VFunc (Test_or m1 m2)) # ps)) ''test'' [x] =
   js_or (invoke h m1 ''test'' [x]) (invoke h m2 ''test'' [x])"
  by (cases "invoke h m1 ''test'' [x]")
     (simp_all add: invoke_test call.simps arg_def js_or_def bind_result_def)

lemma and_test:
  "invoke h (matcher_object ((''test'', VFunc (Test_and m1 m2)) # ps)) ''test'' [x] =
   js_and (invoke h m1 ''test'' [x]) (invoke h m2 ''test'' [x])"
  by (cases "invoke h m1 ''test'' [x]")
     (simp_all add: invoke_test call.simps arg_def js_and_def bind_result_def)

text \<open>On a matcher built by the engine, \<open>m.or(...)\<close> and \<open>m.and(...)\<close> are the two
  functions of the \<open>matcher\<close> prototype, called on \<open>m\<close>.\<close>

lemma combinator_methods:
  "invoke h (matcher_object [(''test'', t), (''message'', v)]) ''or'' args =
   matcher_or h (matcher_object [(''test'', t), (''message'', v)]) args"
  "invoke h (matcher_object [(''test'', t), (''message'', v)]) ''and'' args =
   matcher_and h (matcher_object [(''test'', t), (''message'', v)]) args"
  by (simp_all add: invoke.simps matcher_object_def get_prop_def lookup_def
      matcher_prototype_def call.simps)

lemma run_or:
  assumes "isMatcher m1" "isMatcher m2"
  shows "run_test h (matcher_or h m1 [m2]) x =
         js_or (invoke h m1 ''test'' [x]) (invoke h m2 ''test'' [x])"
  by (simp add: run_test_def matcher_or_built[OF assms] bind_result_def or_test)

lemma run_and:
  assumes "isMatcher m1" "isMatcher m2"
  shows "run_test h (matcher_and h m1 [m2]) x =
         js_and (invoke h m1 ''test'' [x]) (invoke h m2 ''test'' [x])"
  by (simp add: run_test_def matcher_and_built[OF assms] bind_result_def and_test)

lemma run_or_chain_left:
  assumes "isMatcher m1" "isMatcher m2" "isMatcher m3"
  shows "run_test h (bind_result (matcher_or h m1 [m2]) (\<lambda>m12. matcher_or h m12 [m3])) x =
         js_or (js_or (invoke h m1 ''test'' [x]) (invoke h m2 ''test'' [x])) (invoke h m3 ''test'' [x])"
  using assms
  by (simp add: matcher_or_built bind_result_def isMatcher_matcher_object run_test_def or_test)

lemma run_or_chain_right:
  assumes "isMatcher m1" "isMatcher m2" "isMatcher m3"
  shows "run_test h (bind_result (matcher_or h m2 [m3]) (\<lambda>m23. matcher_or h m1 [m23])) x =
         js_or (invoke h m1 ''test'' [x]) (js_or (invoke h m2 ''test'' [x]) (invoke h m3 ''test'' [x]))"
  using assms
  by (simp add: matcher_or_built bind_result_def isMatcher_matcher_object run_test_def or_test)

lemma run_and_chain_left:
  assumes "isMatcher m1" "isMatcher m2" "isMatcher m3"
  shows "run_test h (bind_result (matcher_and h m1 [m2]) (\<lambda>m12. matcher_and h m12 [m3])) x =
         js_and (js_and (invoke h m1 ''test'' [x]) (invoke h m2 ''test'' [x])) (invoke h m3 ''test'' [x])"
  using assms
  by (simp add: matcher_and_built bind_result_def isMatcher_matcher_object run_test_def and_test)

lemma run_and_chain_right:
  assumes "isMatcher m1" "isMatcher m2" "isMatcher m3"
  shows "run_test h (bind_result (matcher_and h m2 [m3]) (\<lambda>m23. matcher_and h m1 [m23])) x =
         js_and (invoke h m1 ''test'' [x]) (js_and (invoke h m2 ''test'' [x]) (invoke h m3 ''test'' [x]))"
  using assms
  by (simp add: matcher_and_built bind_result_def isMatcher_matcher_object run_test_def and_test)

lemma message_of_built:
  "bind_result (Inr (matcher_object [(''test'', t), (''message'', v)])) (\<lambda>m. js_member m ''message'')
   = Inr v"
  by (simp add: bind_result_def js_member_def message_present) (simp add: matcher_object_def)

text \<open>
  C4. For matchers \<open>m1\<close>, \<open>m2\<close>, \<open>m3\<close> and every value \<open>x\<close>:
  \<open>m1.or(m2).test(x)\<close> is \<open>m1.test(x) || m2.test(x)\<close> and \<open>m1.and(m2).test(x)\<close> is
  \<open>m1.test(x) && m2.test(x)\<close>, the left operand first and the right one only when
  the left one did not decide; the messages are
  \<open>m1.message + ".or(" + m2.message + ")"\<close> and \<open>m1.message + ".and(" + m2.message + ")"\<close>;
  and chaining is associative in the outcome of \<open>test\<close>: \<open>m1.or(m2).or(m3)\<close> and
  \<open>m1.or(m2.or(m3))\<close> give the same result on \<open>x\<close>, and likewise for \<open>and\<close>.
\<close>

theorem combinator_laws:
  assumes "isMatcher m1" "isMatcher m2" "isMatcher m3"
  shows "run_test h (matcher_or h m1 [m2]) x
           = js_or (invoke h m1 ''test'' [x]) (invoke h m2 ''test'' [x])
       \<and> run_test h (matcher_and h m1 [m2]) x
           = js_and (invoke h m1 ''test'' [x]) (invoke h m2 ''test'' [x])
       \<and> bind_result (matcher_or h m1 [m2]) (\<lambda>m. js_member m ''message'')
           = Inr (VStr (js_to_string h (get_prop m1 ''message'') @ ''.or('' @
                        js_to_string h (get_prop m2 ''message'') @ '')''))
       \<and> bind_result (matcher_and h m1 [m2]) (\<lambda>m. js_member m ''message'')
           = Inr (VStr (js_to_string h (get_prop m1 ''message'') @ ''.and('' @
                        js_to_string h (get_prop m2 ''message'') @ '')''))
       \<and> run_test h (bind_result (matcher_or h m1 [m2]) (\<lambda>m12. matcher_or h m12 [m3])) x
           = run_test h (bind_result (matcher_or h m2 [m3]) (\<lambda>m23. matcher_or h m1 [m23])) x
       \<and> run_test h (bind_result (matcher_and h m1 [m2]) (\<lambda>m12. matcher_and h m12 [m3])) x
           = run_test h (bind_result (matcher_and h m2 [m3]) (\<lambda>m23. matcher_and h m1 [m23])) x"
proof (intro conjI)
  show "run_test h (matcher_or h m1 [m2]) x
          = js_or (invoke h m1 ''test'' [x]) (invoke h m2 ''test'' [x])"
    using assms by (rule_tac run_or)
  show "run_test h (matcher_and h m1 [m2]) x
          = js_and (invoke h m1 ''test'' [x]) (invoke h m2 ''test'' [x])"
    using assms by (rule_tac run_and)
  show "bind_result (matcher_or h m1 [m2]) (\<lambda>m. js_member m ''message'')
          = Inr (VStr (js_to_string h (get_prop m1 ''message'') @ ''.or('' @
                       js_to_string h (get_prop m2 ''message'') @ '')''))"
    using assms by (simp only: matcher_or_built message_of_built)
  show "bind_result (matcher_and h m1 [m2]) (\<lambda>m. js_member m ''message'')
          = Inr (VStr (js_to_string h (get_prop m1 ''message'') @ ''.and('' @
                       js_to_string h (get_prop m2 ''message'') @ '')''))"
    using assms by (simp only: matcher_and_built message_of_built)
  show "run_test h (bind_result (matcher_or h m1 [m2]) (\<lambda>m12. matcher_or h m12 [m3])) x
          = run_test h (bind_result (matcher_or h m2 [m3]) (\<lambda>m23. matcher_or h m1 [m23])) x"
    using assms by (simp only: run_or_chain_left run_or_chain_right js_or_assoc)
  show "run_test h (bind_result (matcher_and h m1 [m2]) (\<lambda>m12. matcher_and h m12 [m3])) x
          = run_test h (bind_result (matcher_and h m2 [m3]) (\<lambda>m23. matcher_and h m1 [m23])) x"
    using assms by (simp only: run_and_chain_left run_and_chain_right js_and_assoc)
qed

definition example_any :: jsval where
  "example_any = matcher_object [(''test'', VFunc Test_any), (''message'', VStr ''any'')]"

definition example_falsy :: jsval where
  "example_falsy = matcher_object [(''test'', VFunc Test_falsy), (''message'', VStr ''falsy'')]"

lemma example_matchers_built:
  "createMatcher_any h = Inr example_any" "createMatcher_falsy h = Inr example_falsy"
  by (simp_all add: createMatcher_any_def createMatcher_falsy_def createMatcher_function
      example_any_def example_falsy_def)

text \<open>
  The laws at work: \<open>falsy.or(any)\<close> and \<open>falsy.and(any)\<close> on the number 1.
\<close>

theorem combinator_laws_witness:
  "isMatcher example_falsy \<and> isMatcher example_any \<and>
   run_test example_host (matcher_or example_host example_falsy [example_any]) (VNum (Fin 1))
     = Inr (VBool True) \<and>
   run_test example_host (matcher_and example_host example_falsy [example_any]) (VNum (Fin 1))
     = Inr (VBool False) \<and>
   bind_result (matcher_or example_host example_falsy [example_any]) (\<lambda>m. js_member m ''message'')
     = Inr (VStr ''falsy.or(any)'')"
proof -
  have m: "isMatcher example_falsy" "isMatcher example_any"
    by (simp_all add: example_any_def example_falsy_def isMatcher_matcher_object)
  have t: "invoke example_host example_falsy ''test'' [VNum (Fin 1)] = Inr (VBool False)"
          "invoke example_host example_any ''test'' [VNum (Fin 1)] = Inr (VBool True)"
    by (simp_all add: example_any_def example_falsy_def invoke_test call.simps arg_def)
  have g: "get_prop example_falsy ''message'' = VStr ''falsy''"
          "get_prop example_any ''message'' = VStr ''any''"
    by (simp_all add: example_any_def example_falsy_def message_present)
  from combinator_laws[OF m(1) m(2) m(2), of example_host "VNum (Fin 1)"] m t g
  show ?thesis by (simp add: js_or_def js_and_def bind_result_def)
qed

section \<open>matchObject, key by key\<close>

text \<open>What \<open>matchObject\<close> asks of one key \<open>k\<close> of the expectation.\<close>

definition key_holds :: "host \<Rightarrow> jsval \<Rightarrow> jsval \<Rightarrow> string \<Rightarrow> bool" where
  "key_holds h actual expectation k =
     (let exp = get_prop expectation k; act = get_prop actual k in
      if isMatcher exp
      then (case invoke h exp ''test'' [act] of Inl e \<Rightarrow> False | Inr r \<Rightarrow> truthy r)
      else if typeOf exp = ''object'' then matchObject h act exp = Inr True
      else deepEqual h act exp)"

lemma arrayEvery_True: "arrayEvery xs f = Inr True \<longleftrightarrow> (\<forall>x\<in>set xs. f x = Inr True)"
  by (induction xs) (auto split: sum.splits)

lemma matchObject_null: "matchObject h VNull expectation = Inr False"
  "matchObject h VUndefined expectation = Inr False"
  by (simp_all add: matchObject.simps)

lemma matchObject_True:
  assumes "actual \<noteq> VNull" "actual \<noteq> VUndefined"
  shows "matchObject h actual expectation = Inr True
         \<longleftrightarrow> (\<forall>k\<in>set (object_keys expectation). key_holds h actual expectation k)"
proof -
  have "matchObject h actual expectation = Inr True \<longleftrightarrow>
        (\<forall>key\<in>set (object_keys expectation).
           (let exp = get_prop expectation key; act = get_prop actual key
            in if isMatcher exp
               then bind_result (invoke h exp ''test'' [act]) (\<lambda>r. Inr (truthy r))
               else if typeOf exp = ''object'' then matchObject h act exp
               else Inr (deepEqual h act exp)) = Inr True)"
    using assms by (subst matchObject.simps) (simp add: arrayEvery_True)
  also have "\<dots> \<longleftrightarrow> (\<forall>k\<in>set (object_keys expectation). key_holds h actual expectation k)"
    by (auto simp: key_holds_def Let_def bind_result_def split: sum.splits)
  finally show ?thesis .
qed

lemma matchObject_subset:
  assumes "actual \<noteq> VNull" "actual \<noteq> VUndefined" "actual' \<noteq> VNull" "actual' \<noteq> VUndefined"
    and "\<forall>k\<in>set (object_keys expectation). get_prop actual' k = get_prop actual k"
  shows "matchObject h actual' expectation = matchObject h actual expectation"
  using assms
  by (subst (1 2) matchObject.simps) (auto intro!: arrayEvery_cong simp: Let_def)

lemma createMatcher_plain_object:
  assumes "typeOf expectation = ''object''"
    and "js_typeof (get_prop expectation ''test'') \<noteq> ''function''"
  shows "createMatcher h [expectation] =
         Inr (matcher_object
               [(''test'', VFunc (Test_object expectation)),
                (''message'', VStr (''match('' @
                   join (map (\<lambda>key. key @ '': '' @ valueToString h (get_prop expectation key))
                          (object_keys expectation)) '', '' @ '')''))])"
  using assms
  by (simp add: createMatcher_def arg_def TYPE_MAP_def TYPE_MAP_object_def Let_def message_present)

lemma run_plain_object:
  assumes "typeOf expectation = ''object''"
    and "js_typeof (get_prop expectation ''test'') \<noteq> ''function''"
  shows "run_test h (createMatcher h [expectation]) actual =
         bind_result (matchObject h actual expectation) (\<lambda>b. Inr (VBool b))"
  by (simp add: run_test_def createMatcher_plain_object[OF assms] bind_result_def invoke_test
      call.simps arg_def)

text \<open>
  C3. For a plain-object expectation, \<open>matchObject(actual, expectation)\<close> returns false
  when \<open>actual\<close> is null or undefined, and otherwise returns true iff every own key
  \<open>k\<close> of the expectation holds: \<open>expectation[k].test(actual[k])\<close> if \<open>expectation[k]\<close>
  is a matcher, else \<open>matchObject(actual[k], expectation[k])\<close> if it classifies as an
  object, else \<open>deepEqual(actual[k], expectation[k])\<close>. Keys of \<open>actual\<close> that the
  expectation does not have are ignored: two values that agree on the expectation's keys
  get the same answer. The factory installs exactly this test for an object without a
  callable \<open>test\<close>.
\<close>

theorem matchObject_subset_match:
  assumes "typeOf expectation = ''object''"
  shows "(actual = VNull \<or> actual = VUndefined \<longrightarrow> matchObject h actual expectation = Inr False)
       \<and> (actual \<noteq> VNull \<and> actual \<noteq> VUndefined \<longrightarrow>
            (matchObject h actual expectation = Inr True
             \<longleftrightarrow> (\<forall>k\<in>set (object_keys expectation). key_holds h actual expectation k)))
       \<and> (actual \<noteq> VNull \<and> actual \<noteq> VUndefined \<and> other \<noteq> VNull \<and> other \<noteq> VUndefined \<and>
            (\<forall>k\<in>set (object_keys expectation). get_prop other k = get_prop actual k) \<longrightarrow>
            matchObject h other expectation = matchObject h actual expectation)
       \<and> (js_typeof (get_prop expectation ''test'') \<noteq> ''function'' \<longrightarrow>
            run_test h (createMatcher h [expectation]) actual =
            bind_result (matchObject h actual expectation) (\<lambda>b. Inr (VBool b)))"
  using assms
  by (auto simp: matchObject_null matchObject_True run_plain_object intro: matchObject_subset)

definition example_expectation :: jsval where
  "example_expectation =
     VObj [(''a'', VNum (Fin 1)),
           (''m'', matcher_object [(''test'', VFunc Test_truthy), (''message'', VStr ''truthy'')]),
           (''o'', VObj [(''b'', VNum (Fin 2))] [] EndObject)] [] EndObject"

definition example_actual :: jsval where
  "example_actual =
     VObj [(''a'', VNum (Fin 1)),
           (''m'', VStr ''z''),
           (''o'', VObj [(''b'', VNum (Fin 2)), (''c'', VNum (Fin 3))] [] EndObject),
           (''extra'', VNull)] [] EndObject"

text \<open>
  An expectation with a plain value, a matcher and a nested object, against an actual
  value with extra keys at both levels.
\<close>

theorem matchObject_subset_match_witness:
  "typeOf example_expectation = ''object'' \<and>
   matchObject example_host VNull example_expectation = Inr False \<and>
   matchObject example_host example_actual example_expectation = Inr True \<and>
   run_test example_host (createMatcher example_host [example_expectation]) example_actual
     = Inr (VBool True)"
proof -
  have ty: "typeOf example_expectation = ''object''"
    by (simp add: example_expectation_def)
  have nt: "js_typeof (get_prop example_expectation ''test'') \<noteq> ''function''"
    by (simp add: example_expectation_def get_prop_def lookup_def object_prototype_def
        object_prototype_names_def)
  have keys: "\<forall>k\<in>set (object_keys example_expectation).
                key_holds example_host example_actual example_expectation k"
    by (simp add: example_expectation_def example_actual_def key_holds_def get_prop_def
        lookup_def matcher_object_def invoke.simps call.simps arg_def matchObject_True
        example_host_def)
  have nn: "example_actual \<noteq> VNull \<and> example_actual \<noteq> VUndefined"
    by (simp add: example_actual_def)
  note t = matchObject_subset_match[OF ty, of _ example_host]
  have 1: "matchObject example_host VNull example_expectation = Inr False"
    using t[of VNull] by simp
  have 2: "matchObject example_host example_actual example_expectation = Inr True"
    using t[of example_actual] keys nn by simp
  have 3: "run_test example_host (createMatcher example_host [example_expectation]) example_actual
             = Inr (VBool True)"
    using t[of example_actual] nt 2 by (simp add: bind_result_def)
  from ty 1 2 3 show ?thesis by simp
qed

section \<open>The public surface and isMatcher\<close>

text \<open>
  The public surface in one function: the factory, the two combinators (called on
  \<open>this\<close>), and the members of the namespace. A member that is a matcher rather than a
  function (\<open>any\<close>, \<open>array\<close>, \<open>bool\<close>, ...) ignores the arguments.
\<close>

datatype api =
    Api_createMatcher | Api_or | Api_and
  | Api_any | Api_defined | Api_truthy | Api_falsy
  | Api_same | Api_in | Api_typeOf | Api_instanceOf
  | Api_has | Api_hasOwn | Api_hasNested
  | Api_every | Api_some
  | Api_array | Api_array_deepEquals | Api_array_startsWith | Api_array_endsWith | Api_array_contains
  | Api_map | Api_map_deepEquals | Api_map_contains
  | Api_set | Api_set_deepEquals | Api_set_contains
  | Api_bool | Api_number | Api_string | Api_object | Api_func | Api_regexp | Api_date | Api_symbol

fun construct :: "host \<Rightarrow> api \<Rightarrow> jsval \<Rightarrow> jsval list \<Rightarrow> jsval result" where
  "construct h Api_createMatcher this args = createMatcher h args"
| "construct h Api_or this args = matcher_or h this args"
| "construct h Api_and this args = matcher_and h this args"
| "construct h Api_any this args = createMatcher_any h"
| "construct h Api_defined this args = createMatcher_defined h"
| "construct h Api_truthy this args = createMatcher_truthy h"
| "construct h Api_falsy this args = createMatcher_falsy h"
| "construct h Api_same this args = createMatcher_same h args"
| "construct h Api_in this args = createMatcher_in h args"
| "construct h Api_typeOf this args = createMatcher_typeOf h args"
| "construct h Api_instanceOf this args = createMatcher_instanceOf h args"
| "construct h Api_has this args = createMatcher_has h args"
| "construct h Api_hasOwn this args = createMatcher_hasOwn h args"
| "construct h Api_hasNested this args = createMatcher_hasNested h args"
| "construct h Api_every this args = createMatcher_every h args"
| "construct h Api_some this args = createMatcher_some h args"
| "construct h Api_array this args = createMatcher_array h"
| "construct h Api_array_deepEquals this args = createMatcher_array_deepEquals h args"
| "construct h Api_array_startsWith this args = createMatcher_array_startsWith h args"
| "construct h Api_array_endsWith this args = createMatcher_array_endsWith h args"
| "construct h Api_array_contains this args = createMatcher_array_contains h args"
| "construct h Api_map this args = createMatcher_map h"
| "construct h Api_map_deepEquals this args = createMatcher_map_deepEquals h args"
| "construct h Api_map_contains this args = createMatcher_map_contains h args"
| "construct h Api_set this args = createMatcher_set h"
| "construct h Api_set_deepEquals this args = createMatcher_set_deepEquals h args"
| "construct h Api_set_contains this args = createMatcher_set_contains h args"
| "construct h Api_bool this args = createMatcher_bool h"
| "construct h Api_number this args = createMatcher_number h"
| "construct h Api_string this args = createMatcher_string h"
| "construct h Api_object this args = createMatcher_object h"
| "construct h Api_func this args = createMatcher_func h"
| "construct h Api_regexp this args = createMatcher_regexp h"
| "construct h Api_date this args = createMatcher_date h"
| "construct h Api_symbol this args = createMatcher_symbol h"

lemma createMatcher_isMatcher: "createMatcher h args = Inr m \<Longrightarrow> isMatcher m"
  by (auto simp: createMatcher_def Let_def isMatcher_matcher_object split: if_splits)

lemma bind_result_Inr: "bind_result r f = Inr m \<longleftrightarrow> (\<exists>v. r = Inr v \<and> f v = Inr m)"
  by (cases r) (auto simp: bind_result_def)

lemma matcher_or_isMatcher: "matcher_or h this args = Inr m \<Longrightarrow> isMatcher m"
  by (auto simp: matcher_or_def Let_def bind_result_Inr isMatcher_matcher_object split: if_splits)

lemma matcher_and_isMatcher: "matcher_and h this args = Inr m \<Longrightarrow> isMatcher m"
  by (auto simp: matcher_and_def Let_def bind_result_Inr isMatcher_matcher_object split: if_splits)

lemma typeOf_builder_isMatcher: "createMatcher_typeOf h args = Inr m \<Longrightarrow> isMatcher m"
  by (auto simp: createMatcher_typeOf_def Let_def bind_result_Inr dest: createMatcher_isMatcher)

lemma property_builder_isMatcher:
  "createPropertyMatcher propertyTest prefix h args = Inr m \<Longrightarrow> isMatcher m"
  by (auto simp: createPropertyMatcher_def Let_def bind_result_Inr dest: createMatcher_isMatcher)

lemma family_builder_isMatcher:
  "family_builder test opening closing h args = Inr m \<Longrightarrow> isMatcher m"
  by (auto simp: family_builder_def Let_def bind_result_Inr dest: createMatcher_isMatcher)

lemma assign_isMatcher: "isMatcher m \<Longrightarrow> isMatcher (assign m kvs)"
  by (cases m) auto

lemma construct_isMatcher: "construct h f this args = Inr m \<Longrightarrow> isMatcher m"
proof (cases f)
  case Api_instanceOf
  assume "construct h f this args = Inr m"
  with Api_instanceOf show ?thesis
    by (auto simp: createMatcher_instanceOf_def Let_def bind_result_Inr
        dest: createMatcher_isMatcher split: if_splits)
qed (auto simp: createMatcher_any_def createMatcher_defined_def createMatcher_truthy_def
      createMatcher_falsy_def createMatcher_same_def createMatcher_in_def
      createMatcher_has_def createMatcher_hasOwn_def createMatcher_hasNested_def
      createMatcher_every_def createMatcher_some_def
      createMatcher_array_def createMatcher_map_def createMatcher_set_def
      createMatcher_array_deepEquals_def createMatcher_array_startsWith_def
      createMatcher_array_endsWith_def createMatcher_array_contains_def
      createMatcher_map_deepEquals_def createMatcher_map_contains_def
      createMatcher_set_deepEquals_def createMatcher_set_contains_def
      createMatcher_bool_def createMatcher_number_def createMatcher_string_def
      createMatcher_object_def createMatcher_func_def createMatcher_regexp_def
      createMatcher_date_def createMatcher_symbol_def
      Let_def bind_result_Inr
      intro: assign_isMatcher
      dest: createMatcher_isMatcher matcher_or_isMatcher matcher_and_isMatcher
        typeOf_builder_isMatcher property_builder_isMatcher family_builder_isMatcher
      split: if_splits)

text \<open>
  C9, as stated, fails: an object authored outside the engine is recognised when it
  inherits from a matcher. The value below is \<open>Object.create(createMatcher.any)\<close> with an
  own property added by its author; \<open>matcher\<close> is on its prototype chain.
\<close>

theorem inheriting_object_counterexample:
  "isMatcher (VObj [(''own'', VNum (Fin 1))]
                   [[(''test'', VFunc Test_any), (''message'', VStr ''any'')]] EndMatcher)"
  by simp

text \<open>
  C9, amended. \<open>isMatcher(x)\<close> is true for every value the construction paths return
  (the factory, the namespace builders and members, \<open>or\<close> and \<open>and\<close>); for an object it
  is true exactly when \<open>matcher\<close> is on the prototype chain, so it is false for every
  object that does not inherit from a matcher, also one that carries \<open>test\<close> and
  \<open>message\<close>, and false for everything that is not an object. Recognition is by
  prototype, never by the shape of the value.
\<close>

theorem isMatcher_by_prototype:
  "(construct h f this args = Inr m \<longrightarrow> isMatcher m) \<and>
   (isMatcher (VObj props parents e) \<longleftrightarrow> e = EndMatcher) \<and>
   (e \<noteq> EndMatcher \<longrightarrow>
      \<not> isMatcher (VObj ((''test'', t) # (''message'', msg) # props) parents e)) \<and>
   (typeOf v \<noteq> ''object'' \<longrightarrow> \<not> isMatcher v)"
proof (intro conjI impI)
  assume "construct h f this args = Inr m"
  then show "isMatcher m" by (rule construct_isMatcher)
next
  assume "typeOf v \<noteq> ''object''"
  then show "\<not> isMatcher v" by (cases v) auto
qed simp_all

text \<open>
  \<open>createMatcher.any\<close> is recognised; a look-alike object and a function are not.
\<close>

theorem isMatcher_by_prototype_witness:
  "construct example_host Api_any VUndefined [] = Inr example_any \<and>
   isMatcher example_any \<and>
   EndObject \<noteq> EndMatcher \<and>
   \<not> isMatcher (VObj [(''test'', VFunc (CUser 0)), (''message'', VStr ''mine'')] [] EndObject) \<and>
   typeOf (VFunc (CUser 0)) \<noteq> ''object'' \<and> \<not> isMatcher (VFunc (CUser 0))"
proof -
  have c: "construct example_host Api_any VUndefined [] = Inr example_any"
    by (simp add: example_matchers_built)
  have t: "typeOf (VFunc (CUser 0)) \<noteq> ''object''" by simp
  from isMatcher_by_prototype[of example_host Api_any VUndefined "[]" example_any
         "[]" "[]" EndObject "VFunc (CUser 0)" "VStr ''mine''" "VFunc (CUser 0)"] c t
  show ?thesis by simp
qed

section \<open>The quantified matchers every and some\<close>

text \<open>
  The outcome of \<open>p.test(x)\<close>, three ways: it returned a truthy value, it returned a
  falsy value, it returned at all (rather than raising).
\<close>

definition holds :: "host \<Rightarrow> jsval \<Rightarrow> jsval \<Rightarrow> bool" where
  "holds h p x = (case invoke h p ''test'' [x] of Inl e \<Rightarrow> False | Inr r \<Rightarrow> truthy r)"

definition fails :: "host \<Rightarrow> jsval \<Rightarrow> jsval \<Rightarrow> bool" where
  "fails h p x = (case invoke h p ''test'' [x] of Inl e \<Rightarrow> False | Inr r \<Rightarrow> \<not> truthy r)"

definition returns :: "host \<Rightarrow> jsval \<Rightarrow> jsval \<Rightarrow> bool" where
  "returns h p x = (case invoke h p ''test'' [x] of Inl e \<Rightarrow> False | Inr r \<Rightarrow> True)"


lemma fails_iff_not_holds: "returns h p x \<Longrightarrow> fails h p x \<longleftrightarrow> \<not> holds h p x"
  by (auto simp: returns_def fails_def holds_def split: sum.splits)



























section \<open>Null and undefined as the actual value\<close>

lemma built_from_function:
  assumes "createMatcher h [VFunc c, VStr s] = Inr m"
  shows "\<exists>v. m = matcher_object [(''test'', VFunc c), (''message'', v)]"
  using assms
  by (auto simp: createMatcher_def arg_def TYPE_MAP_def TYPE_MAP_function_def Let_def
      split: if_splits)

lemma test_of_built:
  assumes "createMatcher h [VFunc c, VStr s] = Inr m"
  shows "invoke h m ''test'' xs = call h c m xs"
  using built_from_function[OF assms] by (auto simp: invoke_test)

lemma assign_test:
  assumes "m = matcher_object [(''test'', VFunc c), (''message'', v)]"
    and "''test'' \<notin> fst ` set kvs"
  shows "invoke h (assign m kvs) ''test'' xs = call h c (assign m kvs) xs"
proof -
  have "map_of (foldl (\<lambda>ps (k, v). put ps k v) ps kvs) ''test'' = map_of ps ''test''"
    if "''test'' \<notin> fst ` set kvs" for ps kvs
    using that
  proof (induction kvs arbitrary: ps)
    case Nil then show ?case by simp
  next
    case (Cons kv kvs)
    have p: "map_of (put ps k v) ''test'' = map_of ps ''test''" if "k \<noteq> ''test''" for ps k v
      using that by (induction ps) auto
    from Cons show ?case by (cases kv) (auto simp: p)
  qed
  from this[OF assms(2)] show ?thesis
    by (simp add: assms(1) matcher_object_def invoke.simps get_prop_def lookup_def)
qed


text \<open>The value the factory assigns to \<open>m.test\<close>, by the class of the expectation.\<close>

definition installed_test :: "jsval \<Rightarrow> jsval" where
  "installed_test expectation =
     (if typeOf expectation = ''function'' then expectation
      else if typeOf expectation = ''number'' then VFunc (Test_number expectation)
      else if typeOf expectation = ''object'' then
        (if js_typeof (get_prop expectation ''test'') = ''function''
         then VFunc (Test_adapter expectation) else VFunc (Test_object expectation))
      else if typeOf expectation = ''regexp'' then VFunc (Test_regexp expectation)
      else if typeOf expectation = ''string'' then VFunc (Test_string expectation)
      else VFunc (Test_deepEqual expectation))"

lemma put_test_message:
  "put (put [] ''test'' t) ''message'' v = [(''test'', t), (''message'', v)]"
  "put [(''test'', t), (''message'', v)] ''message'' w = [(''test'', t), (''message'', w)]"
  "put (put [] ''test'' t) ''message'' v = [(''test'', t), (''message'', v)]"
  by simp_all

lemma createMatcher_built:
  assumes "createMatcher h args = Inr m"
  shows "\<exists>v. m = matcher_object [(''test'', installed_test (arg args 0)), (''message'', v)]"
proof -
  let ?e = "arg args 0"
  have ok: "\<not> (arg args 1 \<noteq> VUndefined \<and> js_typeof (arg args 1) \<noteq> ''string'')" "\<not> length args > 2"
    using assms by (auto simp: createMatcher_def Let_def split: if_splits)
  consider (f) "typeOf ?e = ''function''" | (n) "typeOf ?e = ''number''"
    | (o) "typeOf ?e = ''object''" | (r) "typeOf ?e = ''regexp''" | (s) "typeOf ?e = ''string''"
    | (d) "typeOf ?e \<notin> {''function'', ''number'', ''object'', ''regexp'', ''string''}"
    by auto
  then show ?thesis
  proof cases
    case f
    with assms ok show ?thesis
      by (auto simp: createMatcher_def Let_def TYPE_MAP_def TYPE_MAP_function_def
          installed_test_def split: if_splits)
  next
    case n
    with assms ok show ?thesis
      by (auto simp: createMatcher_def Let_def TYPE_MAP_def TYPE_MAP_number_def
          installed_test_def message_absent split: if_splits)
  next
    case o
    with assms ok show ?thesis
      by (auto simp: createMatcher_def Let_def TYPE_MAP_def TYPE_MAP_object_def
          installed_test_def split: if_splits)
  next
    case r
    with assms ok show ?thesis
      by (auto simp: createMatcher_def Let_def TYPE_MAP_def TYPE_MAP_regexp_def
          installed_test_def message_absent split: if_splits)
  next
    case s
    with assms ok show ?thesis
      by (auto simp: createMatcher_def Let_def TYPE_MAP_def TYPE_MAP_string_def
          installed_test_def split: if_splits)
  next
    case d
    with assms ok show ?thesis
      by (auto simp: createMatcher_def Let_def TYPE_MAP_def installed_test_def message_absent
          split: if_splits)
  qed
qed

lemma typeOf_builder_test:
  assumes "createMatcher_typeOf h args = Inr m"
  shows "\<exists>v. m = matcher_object [(''test'', VFunc (Test_typeOf (arg args 0))), (''message'', v)]"
  using assms
  by (auto simp: createMatcher_typeOf_def Let_def bind_result_Inr dest: built_from_function)

lemma typeOf_test_null:
  assumes "createMatcher_typeOf h [VStr tag] = Inr m" and "tag \<noteq> typeOf a"
  shows "invoke h m ''test'' [a] = Inr (VBool False)"
  using typeOf_builder_test[OF assms(1)] assms(2)
  by (auto simp: invoke_test call.simps arg_def strict_eq_def)

lemma root_test_null:
  assumes "createMatcher_typeOf h [VStr tag] = Inr m" and "tag \<noteq> typeOf a"
    and "''test'' \<notin> fst ` set kvs"
  shows "invoke h (assign m kvs) ''test'' [a] = Inr (VBool False)"
  using typeOf_builder_test[OF assms(1)] assms(2,3)
  by (auto simp: assign_test call.simps arg_def strict_eq_def)

lemma family_builder_test:
  assumes "family_builder test opening closing h args = Inr m"
  shows "invoke h m ''test'' xs = call h (test (arg args 0)) m xs"
  using assms
  by (auto simp: family_builder_def Let_def bind_result_Inr dest: test_of_built)

lemma nested_array_deepEquals:
  assumes "createMatcher_array_deepEquals h [expected] = Inr m"
  shows "invoke h m ''test'' [element] = call h (Test_array_deepEquals expected) m [element]"
  using family_builder_test[OF assms[unfolded createMatcher_array_deepEquals_def]]
  by (simp add: arg_def)

lemma property_builder_test:
  assumes "createPropertyMatcher pt prefix h args = Inr m"
  shows "invoke h m ''test'' xs =
         call h (Test_property pt (arg args 0) (length args = 1) (arg args 1)) m xs"
  using assms
  by (auto simp: createPropertyMatcher_def Let_def bind_result_Inr dest: test_of_built)

lemma typeOf_null_cases: "a = VNull \<or> a = VUndefined \<Longrightarrow> typeOf a \<in> {''null'', ''undefined''}"
  by auto

lemma strict_eq_null: "strict_eq h v VNull = (v = VNull)"
  by (cases v) (auto simp: strict_eq_def)

lemma not_iterable_null: "\<not> isIterable VNull" "\<not> isIterable VUndefined"
  by (simp_all add: isIterable_def)

text \<open>
  Where \<open>test(null)\<close> and \<open>test(undefined)\<close> are false for every host: the condition on
  the member of the public surface, its arguments and the value \<open>a\<close>. A caller's
  predicate, \<open>instanceOf\<close> and the deep-equality fallback answer what the host answers;
  \<open>any\<close> and \<open>falsy\<close> accept both values; the \<open>deepEquals\<close> builders and \<open>endsWith\<close>
  read \<open>actual.length\<close> or \<open>actual.size\<close> before they look at the type.
\<close>

fun rejects_null :: "host \<Rightarrow> api \<Rightarrow> jsval \<Rightarrow> jsval list \<Rightarrow> jsval \<Rightarrow> bool" where
  "rejects_null h Api_createMatcher this args a =
     (typeOf (arg args 0) \<in> {''number'', ''string'', ''regexp''} \<or>
      (typeOf (arg args 0) = ''object'' \<and>
       js_typeof (get_prop (arg args 0) ''test'') \<noteq> ''function''))"
| "rejects_null h Api_or this args a =
     (isMatcher this \<and> isMatcher (arg args 0) \<and>
      invoke h this ''test'' [a] = Inr (VBool False) \<and>
      invoke h (arg args 0) ''test'' [a] = Inr (VBool False))"
| "rejects_null h Api_and this args a =
     (isMatcher this \<and> isMatcher (arg args 0) \<and>
      invoke h this ''test'' [a] = Inr (VBool False))"
| "rejects_null h Api_any this args a = False"
| "rejects_null h Api_falsy this args a = False"
| "rejects_null h Api_same this args a = (\<not> strict_eq h (arg args 0) a)"
| "rejects_null h Api_in this args a =
     (\<not> list_ex (\<lambda>expectation. strict_eq h expectation a) (array_items (arg args 0)))"
| "rejects_null h Api_typeOf this args a = (arg args 0 \<noteq> VStr (typeOf a))"
| "rejects_null h Api_instanceOf this args a = (instance_of h a (arg args 0) = Inr False)"
| "rejects_null h Api_array_deepEquals this args a = False"
| "rejects_null h Api_array_endsWith this args a = False"
| "rejects_null h Api_map_deepEquals this args a = False"
| "rejects_null h Api_set_deepEquals this args a = False"
| "rejects_null h f this args a = True"


lemma arg_first: "arg (x # xs) 0 = x"
  by (simp add: arg_def)

lemma number_rejects_null:
  assumes "typeOf e = ''number''" "a = VNull \<or> a = VUndefined"
  shows "loose_eq h e a = Inr False"
  using assms by (cases e) (auto simp: loose_eq_def prim_loose_eq_def)

lemma factory_rejects_null:
  assumes a: "a = VNull \<or> a = VUndefined"
    and r: "rejects_null h Api_createMatcher this args a"
    and c: "createMatcher h args = Inr m"
  shows "invoke h m ''test'' [a] = Inr (VBool False)"
proof -
  from createMatcher_built[OF c] obtain v where
    m: "m = matcher_object [(''test'', installed_test (arg args 0)), (''message'', v)]" by blast
  from r consider (n) "typeOf (arg args 0) = ''number''" | (s) "typeOf (arg args 0) = ''string''"
    | (x) "typeOf (arg args 0) = ''regexp''"
    | (o) "typeOf (arg args 0) = ''object''" "js_typeof (get_prop (arg args 0) ''test'') \<noteq> ''function''"
    by auto
  then show ?thesis
  proof cases
    case n
    then show ?thesis using a
      by (simp add: m installed_test_def invoke_test call.simps arg_first Let_def
          number_rejects_null bind_result_def)
  next
    case s
    then show ?thesis using a
      by (auto simp: m installed_test_def invoke_test call.simps arg_first Let_def)
  next
    case x
    then show ?thesis using a
      by (auto simp: m installed_test_def invoke_test call.simps arg_first Let_def)
  next
    case o
    then show ?thesis using a
      by (auto simp: m installed_test_def invoke_test call.simps arg_first Let_def
          matchObject_null bind_result_def)
  qed
qed

lemma isMatcher_arg: "isMatcher (arg args 0) \<Longrightarrow> \<exists>rest. args = arg args 0 # rest"
  by (cases args) (auto simp: arg_def)

lemma or_rejects_null:
  assumes r: "rejects_null h Api_or this args a" and c: "matcher_or h this args = Inr m"
  shows "invoke h m ''test'' [a] = Inr (VBool False)"
proof -
  from r have m1: "isMatcher this" and m2: "isMatcher (arg args 0)"
    and t: "invoke h this ''test'' [a] = Inr (VBool False)"
           "invoke h (arg args 0) ''test'' [a] = Inr (VBool False)" by auto
  from isMatcher_arg[OF m2] obtain rest where args: "args = arg args 0 # rest" by blast
  from c matcher_or_built[OF m1 m2, of h rest] args
  have "m = matcher_object
               [(''test'', VFunc (Test_or this (arg args 0))),
                (''message'', VStr (js_to_string h (get_prop this ''message'') @ ''.or('' @
                                    js_to_string h (get_prop (arg args 0) ''message'') @ '')''))]"
    by simp
  then show ?thesis by (simp add: or_test t js_or_def bind_result_def)
qed

lemma and_rejects_null:
  assumes r: "rejects_null h Api_and this args a" and c: "matcher_and h this args = Inr m"
  shows "invoke h m ''test'' [a] = Inr (VBool False)"
proof -
  from r have m1: "isMatcher this" and m2: "isMatcher (arg args 0)"
    and t: "invoke h this ''test'' [a] = Inr (VBool False)" by auto
  from isMatcher_arg[OF m2] obtain rest where args: "args = arg args 0 # rest" by blast
  from c matcher_and_built[OF m1 m2, of h rest] args
  have "m = matcher_object
               [(''test'', VFunc (Test_and this (arg args 0))),
                (''message'', VStr (js_to_string h (get_prop this ''message'') @ ''.and('' @
                                    js_to_string h (get_prop (arg args 0) ''message'') @ '')''))]"
    by simp
  then show ?thesis by (simp add: and_test t js_and_def bind_result_def)
qed

lemma singleton_rejects_null:
  assumes "a = VNull \<or> a = VUndefined"
  shows "createMatcher_defined h = Inr m \<Longrightarrow> invoke h m ''test'' [a] = Inr (VBool False)"
    and "createMatcher_truthy h = Inr m \<Longrightarrow> invoke h m ''test'' [a] = Inr (VBool False)"
  using assms
  by (auto simp: createMatcher_defined_def createMatcher_truthy_def call.simps arg_first
      dest!: test_of_built[where xs = "[a]"])

lemma same_rejects_null:
  assumes "\<not> strict_eq h (arg args 0) a" "createMatcher_same h args = Inr m"
  shows "invoke h m ''test'' [a] = Inr (VBool False)"
  using assms
  by (auto simp: createMatcher_same_def Let_def call.simps arg_first Let_def
      dest!: test_of_built[where xs = "[a]"])

lemma in_rejects_null:
  assumes "\<not> list_ex (\<lambda>expectation. strict_eq h expectation a) (array_items (arg args 0))"
    and "createMatcher_in h args = Inr m"
  shows "invoke h m ''test'' [a] = Inr (VBool False)"
  using assms
  by (auto simp: createMatcher_in_def Let_def call.simps arg_first Let_def split: if_splits
      dest!: test_of_built[where xs = "[a]"])

lemma typeOf_rejects_null:
  assumes "arg args 0 \<noteq> VStr (typeOf a)" "createMatcher_typeOf h args = Inr m"
  shows "invoke h m ''test'' [a] = Inr (VBool False)"
  using typeOf_builder_test[OF assms(2)] assms(1)
  by (auto simp: invoke_test call.simps arg_first Let_def strict_eq_def)

lemma instanceOf_rejects_null:
  assumes "instance_of h a (arg args 0) = Inr False" "createMatcher_instanceOf h args = Inr m"
  shows "invoke h m ''test'' [a] = Inr (VBool False)"
  using assms
  by (auto simp: createMatcher_instanceOf_def Let_def bind_result_Inr call.simps
      arg_first Let_def bind_result_def[of "Inr _"] split: if_splits
      dest!: test_of_built[where xs = "[a]"])

lemma property_rejects_null:
  assumes "a = VNull \<or> a = VUndefined" "createPropertyMatcher pt prefix h args = Inr m"
  shows "invoke h m ''test'' [a] = Inr (VBool False)"
  using assms
  by (auto simp: property_builder_test call.simps arg_first Let_def)

lemma hasNested_rejects_null:
  assumes "a = VNull \<or> a = VUndefined" "createMatcher_hasNested h args = Inr m"
  shows "invoke h m ''test'' [a] = Inr (VBool False)"
  using assms
  by (auto simp: createMatcher_hasNested_def Let_def bind_result_Inr call.simps
      arg_first Let_def dest!: test_of_built[where xs = "[a]"])

lemma quantifier_rejects_null:
  assumes "a = VNull \<or> a = VUndefined"
  shows "createMatcher_every h args = Inr m \<Longrightarrow> invoke h m ''test'' [a] = Inr (VBool False)"
    and "createMatcher_some h args = Inr m \<Longrightarrow> invoke h m ''test'' [a] = Inr (VBool False)"
  using assms
  by (auto simp: createMatcher_every_def createMatcher_some_def Let_def bind_result_Inr
      call.simps arg_first Let_def not_iterable_null dest!: test_of_built[where xs = "[a]"])

lemma family_rejects_null:
  assumes "a = VNull \<or> a = VUndefined"
    and "test = Test_array_startsWith \<or> test = Test_array_contains \<or>
         test = Test_map_contains \<or> test = Test_set_contains"
    and "family_builder test opening closing h args = Inr m"
  shows "invoke h m ''test'' [a] = Inr (VBool False)"
  using assms
  by (auto simp: family_builder_test call.simps arg_first Let_def)

lemma roots_reject_null:
  assumes "a = VNull \<or> a = VUndefined"
  shows "createMatcher_array h = Inr m \<Longrightarrow> invoke h m ''test'' [a] = Inr (VBool False)"
    and "createMatcher_map h = Inr m \<Longrightarrow> invoke h m ''test'' [a] = Inr (VBool False)"
    and "createMatcher_set h = Inr m \<Longrightarrow> invoke h m ''test'' [a] = Inr (VBool False)"
  using assms
  by (auto simp: createMatcher_array_def createMatcher_map_def createMatcher_set_def
      bind_result_Inr intro!: root_test_null)

lemma construct_rejects_null:
  assumes a: "a = VNull \<or> a = VUndefined"
    and r: "rejects_null h f this args a"
    and c: "construct h f this args = Inr m"
  shows "invoke h m ''test'' [a] = Inr (VBool False)"
proof (cases f)
  case Api_createMatcher
  with a r c show ?thesis by (auto intro: factory_rejects_null)
next
  case Api_or
  with r c show ?thesis by (auto intro: or_rejects_null)
next
  case Api_and
  with r c show ?thesis by (auto intro: and_rejects_null)
next
  case Api_defined
  with a c show ?thesis by (auto intro: singleton_rejects_null)
next
  case Api_truthy
  with a c show ?thesis by (auto intro: singleton_rejects_null)
next
  case Api_same
  with r c show ?thesis by (auto intro: same_rejects_null)
next
  case Api_in
  with r c show ?thesis by (auto intro: in_rejects_null)
next
  case Api_typeOf
  with r c show ?thesis by (auto intro: typeOf_rejects_null)
next
  case Api_instanceOf
  with r c show ?thesis by (auto intro: instanceOf_rejects_null)
next
  case Api_has
  with a c show ?thesis by (auto simp: createMatcher_has_def intro: property_rejects_null)
next
  case Api_hasOwn
  with a c show ?thesis by (auto simp: createMatcher_hasOwn_def intro: property_rejects_null)
next
  case Api_hasNested
  with a c show ?thesis by (auto intro: hasNested_rejects_null)
next
  case Api_every
  with a c show ?thesis by (auto intro: quantifier_rejects_null)
next
  case Api_some
  with a c show ?thesis by (auto intro: quantifier_rejects_null)
next
  case Api_array
  with a c show ?thesis by (auto intro: roots_reject_null)
next
  case Api_map
  with a c show ?thesis by (auto intro: roots_reject_null)
next
  case Api_set
  with a c show ?thesis by (auto intro: roots_reject_null)
next
  case Api_array_startsWith
  with a c show ?thesis
    by (auto simp: createMatcher_array_startsWith_def intro: family_rejects_null)
next
  case Api_array_contains
  with a c show ?thesis
    by (auto simp: createMatcher_array_contains_def intro: family_rejects_null)
next
  case Api_map_contains
  with a c show ?thesis
    by (auto simp: createMatcher_map_contains_def intro: family_rejects_null)
next
  case Api_set_contains
  with a c show ?thesis
    by (auto simp: createMatcher_set_contains_def intro: family_rejects_null)
next
  case Api_bool
  with c have "createMatcher_typeOf h [VStr ''boolean''] = Inr m"
    by (simp add: createMatcher_bool_def)
  moreover have "''boolean'' \<noteq> typeOf a" using a by auto
  ultimately show ?thesis by (rule typeOf_test_null)
next
  case Api_number
  with c have "createMatcher_typeOf h [VStr ''number''] = Inr m"
    by (simp add: createMatcher_number_def)
  moreover have "''number'' \<noteq> typeOf a" using a by auto
  ultimately show ?thesis by (rule typeOf_test_null)
next
  case Api_string
  with c have "createMatcher_typeOf h [VStr ''string''] = Inr m"
    by (simp add: createMatcher_string_def)
  moreover have "''string'' \<noteq> typeOf a" using a by auto
  ultimately show ?thesis by (rule typeOf_test_null)
next
  case Api_object
  with c have "createMatcher_typeOf h [VStr ''object''] = Inr m"
    by (simp add: createMatcher_object_def)
  moreover have "''object'' \<noteq> typeOf a" using a by auto
  ultimately show ?thesis by (rule typeOf_test_null)
next
  case Api_func
  with c have "createMatcher_typeOf h [VStr ''function''] = Inr m"
    by (simp add: createMatcher_func_def)
  moreover have "''function'' \<noteq> typeOf a" using a by auto
  ultimately show ?thesis by (rule typeOf_test_null)
next
  case Api_regexp
  with c have "createMatcher_typeOf h [VStr ''regexp''] = Inr m"
    by (simp add: createMatcher_regexp_def)
  moreover have "''regexp'' \<noteq> typeOf a" using a by auto
  ultimately show ?thesis by (rule typeOf_test_null)
next
  case Api_date
  with c have "createMatcher_typeOf h [VStr ''date''] = Inr m"
    by (simp add: createMatcher_date_def)
  moreover have "''date'' \<noteq> typeOf a" using a by auto
  ultimately show ?thesis by (rule typeOf_test_null)
next
  case Api_symbol
  with c have "createMatcher_typeOf h [VStr ''symbol''] = Inr m"
    by (simp add: createMatcher_symbol_def)
  moreover have "''symbol'' \<noteq> typeOf a" using a by auto
  ultimately show ?thesis by (rule typeOf_test_null)
next
  case Api_any
  with r show ?thesis by simp
next
  case Api_falsy
  with r show ?thesis by simp
next
  case Api_array_deepEquals
  with r show ?thesis by simp
next
  case Api_array_endsWith
  with r show ?thesis by simp
next
  case Api_map_deepEquals
  with r show ?thesis by simp
next
  case Api_set_deepEquals
  with r show ?thesis by simp
qed


lemma any_falsy_accept_null:
  assumes "a = VNull \<or> a = VUndefined"
  shows "run_test h (createMatcher_any h) a = Inr (VBool True)"
    and "run_test h (createMatcher_falsy h) a = Inr (VBool True)"
    and "run_test h (createMatcher_same h [a]) a = Inr (VBool True)"
    and "run_test h (createMatcher_typeOf h [VStr (typeOf a)]) a = Inr (VBool True)"
  using assms
  by (auto simp: createMatcher_any_def createMatcher_falsy_def createMatcher_same_def
      createMatcher_typeOf_def assertType_def bind_result_def[of "Inr _"] Let_def
      run_test_function call.simps arg_first strict_eq_def)

text \<open>
  The four tests left out of \<open>rejects_null\<close> raise on null and undefined: each reads
  \<open>actual.length\<close> or \<open>actual.size\<close> in its first statement, before the check of the
  type of \<open>actual\<close> that would have answered false.
\<close>

lemma length_read_before_type_check:
  assumes "a = VNull \<or> a = VUndefined"
  shows "call h (Test_array_deepEquals e) this [a] = Inl NativeTypeError"
    and "call h (Test_array_endsWith e) this [a] = Inl NativeTypeError"
    and "call h (Test_map_deepEquals e) this [a] = Inl NativeTypeError"
    and "call h (Test_set_deepEquals e) this [a] = Inl NativeTypeError"
  using assms
  by (auto simp: call.simps arg_first Let_def js_member_def bind_result_def)

text \<open>
  C1, as stated, fails: \<open>createMatcher.any.test(null)\<close>,
  \<open>createMatcher.same(null).test(null)\<close> and \<open>createMatcher.typeOf("null").test(null)\<close>
  are true.
\<close>

theorem any_accepts_null_counterexample:
  "run_test example_host (createMatcher_any example_host) VNull = Inr (VBool True) \<and>
   run_test example_host (createMatcher_same example_host [VNull]) VNull = Inr (VBool True) \<and>
   run_test example_host (createMatcher_typeOf example_host [VStr ''null'']) VNull
     = Inr (VBool True)"
  using any_falsy_accept_null[of VNull example_host] by simp

text \<open>
  C1, amended. With \<open>actual\<close> null or undefined, \<open>test\<close> returns false, without
  raising, for every matcher of the public surface that satisfies \<open>rejects_null\<close>: the
  factory's matcher for a number, string, regular expression or plain object; \<open>defined\<close>
  and \<open>truthy\<close>; \<open>same(x)\<close> and \<open>in(list)\<close> unless \<open>x\<close> or an element is that very
  value; \<open>typeOf(tag)\<close> for any other tag, so also the roots \<open>array\<close>, \<open>map\<close>, \<open>set\<close>
  and the shorthand type matchers; \<open>has\<close>, \<open>hasOwn\<close>, \<open>hasNested\<close>, \<open>every\<close>,
  \<open>some\<close>; \<open>array.startsWith\<close>, \<open>array.contains\<close>, \<open>map.contains\<close>,
  \<open>set.contains\<close>; \<open>instanceOf\<close> when the instance check answers false; \<open>m1.or(m2)\<close>
  when both operands return false there and \<open>m1.and(m2)\<close> when \<open>m1\<close> does. By design
  \<open>any\<close>, \<open>falsy\<close>, \<open>same\<close> of that value and \<open>typeOf\<close> of its own tag return true.
  Nothing is said here about \<open>array.deepEquals\<close>, \<open>array.endsWith\<close>,
  \<open>map.deepEquals\<close> and \<open>set.deepEquals\<close>.
\<close>

theorem null_and_undefined_actual:
  assumes "a = VNull \<or> a = VUndefined"
  shows "(rejects_null h f this args a \<and> construct h f this args = Inr m \<longrightarrow>
            invoke h m ''test'' [a] = Inr (VBool False))
       \<and> run_test h (createMatcher_any h) a = Inr (VBool True)
       \<and> run_test h (createMatcher_falsy h) a = Inr (VBool True)
       \<and> run_test h (createMatcher_same h [a]) a = Inr (VBool True)
       \<and> run_test h (createMatcher_typeOf h [VStr (typeOf a)]) a = Inr (VBool True)"
  using assms construct_rejects_null[of a h f this args m] any_falsy_accept_null[of a h]
  by blast

text \<open>
  \<open>createMatcher.has("x").test(null)\<close> is false, \<open>createMatcher.falsy.test(null)\<close> true.
\<close>

theorem null_and_undefined_actual_witness:
  "construct example_host Api_has VUndefined [VStr ''x''] =
     Inr (matcher_object
           [(''test'', VFunc (Test_property PropertyTest_has (VStr ''x'') True VUndefined)),
            (''message'', VStr (''has('' @ dquote @ ''x'' @ dquote @ '')''))]) \<and>
   invoke example_host
     (matcher_object
           [(''test'', VFunc (Test_property PropertyTest_has (VStr ''x'') True VUndefined)),
            (''message'', VStr (''has('' @ dquote @ ''x'' @ dquote @ '')''))])
     ''test'' [VNull] = Inr (VBool False) \<and>
   run_test example_host (createMatcher_falsy example_host) VNull = Inr (VBool True)"
proof -
  let ?m = "matcher_object
           [(''test'', VFunc (Test_property PropertyTest_has (VStr ''x'') True VUndefined)),
            (''message'', VStr (''has('' @ dquote @ ''x'' @ dquote @ '')''))]"
  have c: "construct example_host Api_has VUndefined [VStr ''x''] = Inr ?m"
    by (simp add: createMatcher_has_def createPropertyMatcher_built arg_def)
  have r: "rejects_null example_host Api_has VUndefined [VStr ''x''] VNull" by simp
  have n: "VNull = VNull \<or> VNull = VUndefined" by simp
  from null_and_undefined_actual[OF n, of example_host Api_has VUndefined "[VStr ''x'']" ?m] c r
  show ?thesis by simp
qed

section \<open>Argument errors\<close>




















































































end
